theory Spec2Isabelle
  imports Complex_Main
begin

section \<open>The gateway of \<open>rasa_core/server.py\<close>\<close>

text \<open>
  The development embeds the access-control and bulk-dispatch logic of the HTTP server:
  the structured failure \<open>ErrorResponse\<close>, the decorator \<open>requires_auth\<close>, the resolver
  \<open>_get_output_channel\<close> and the two handlers that sweep over every key of the tracker
  store. Collaborators that live outside the file (the tracker store, the agent, the JWT
  library, the registered input channels) are parameters of the definitions.
\<close>

subsection \<open>Values\<close>

text \<open>
  The exceptions the modelled code can meet: four that the interpreter raises, the
  \<open>AuthenticationFailed\<close> of the JWT library that the file raises itself, and what a
  collaborator raises, a \<open>ValueError\<close> or any other \<open>Exception\<close>.
\<close>

datatype py_exception =
    UnicodeDecodeError | IndexError | AttributeError | TypeError
  | AuthenticationFailed string
  | ValueError string | Exception string

text \<open>
  \<open>except ValueError\<close> catches \<open>ValueError\<close> and its subclasses, of which
  \<open>UnicodeDecodeError\<close> is one; \<open>except Exception\<close> catches every one of them.
\<close>

fun is_ValueError :: "py_exception \<Rightarrow> bool" where
  "is_ValueError UnicodeDecodeError = True"
| "is_ValueError (ValueError m) = True"
| "is_ValueError e = False"

text \<open>
  Python values as far as the error envelope needs them. A \<open>dict\<close> is an association
  list in insertion order. An exception object is a value too: three handlers pass the
  caught exception itself as the message of an \<open>ErrorResponse\<close>.
\<close>

datatype py_value =
    PyNone | PyStr string | PyInt int | PyDict "(string \<times> py_value) list"
  | PyException py_exception

text \<open>What \<open>response.json\<close> can write: everything but an exception object.\<close>

fun serializable :: "py_value \<Rightarrow> bool" where
  "serializable (PyDict entries) = list_all (\<lambda>entry. serializable (snd entry)) entries"
| "serializable (PyException e) = False"
| "serializable v = True"

text \<open>
  What the file reads from other modules and from the platform: two constants, the text
  \<open>str(e)\<close> of an exception, which the handlers format into their messages, and the
  exception that \<open>utcfromtimestamp\<close> raises for a timestamp out of range (a
  \<open>ValueError\<close>, an \<open>OverflowError\<close> or an \<open>OSError\<close>, depending on the value and the
  platform).
\<close>

record constants =
  rasa_version :: string
  DOCS_BASE_URL :: string
  str_of_exception :: "py_exception \<Rightarrow> string"
  timestamp_out_of_range :: "rat \<Rightarrow> py_exception"

subsection \<open>ErrorResponse and its handler\<close>

record error_response =
  error_info :: "(string \<times> py_value) list"
  status :: int

text \<open>\<open>details or {}\<close>: \<open>None\<close> and the empty dict are both falsy.\<close>

definition details_or_empty ::
  "(string \<times> py_value) list option \<Rightarrow> (string \<times> py_value) list" where
  "details_or_empty details = (case details of None \<Rightarrow> [] | Some d \<Rightarrow> (if d = [] then [] else d))"

definition help_value :: "string option \<Rightarrow> py_value" where
  "help_value help_url = (case help_url of None \<Rightarrow> PyNone | Some u \<Rightarrow> PyStr u)"

text \<open>
  The constructor. \<open>message\<close> is whatever the caller passes: a string in most places,
  the caught exception object at lines 297, 640 and 701.
\<close>

definition ErrorResponse ::
  "constants \<Rightarrow> int \<Rightarrow> string \<Rightarrow> py_value \<Rightarrow> (string \<times> py_value) list option
    \<Rightarrow> string option \<Rightarrow> error_response" where
  "ErrorResponse K st reason message details help_url =
     \<lparr> error_info =
         [ (''version'', PyStr (rasa_version K)),
           (''status'', PyStr ''failure''),
           (''message'', message),
           (''reason'', PyStr reason),
           (''details'', PyDict (details_or_empty details)),
           (''help'', help_value help_url),
           (''code'', PyInt st) ],
       status = st \<rparr>"

definition docs :: "constants \<Rightarrow> string \<Rightarrow> string" where
  "docs K sub_url = DOCS_BASE_URL K @ sub_url"

record http_response =
  body :: "(string \<times> py_value) list"
  http_status :: int

text \<open>
  The exception handler \<open>ignore_404s\<close>, on an \<open>ErrorResponse\<close>:
  \<open>response.json(exception.error_info, status=exception.status)\<close>, which raises
  \<open>TypeError\<close> when \<open>error_info\<close> holds a value that JSON cannot write.
\<close>

definition ignore_404s :: "error_response \<Rightarrow> py_exception + http_response" where
  "ignore_404s exception =
     (if serializable (PyDict (error_info exception))
      then Inr \<lparr> body = error_info exception, http_status = status exception \<rparr>
      else Inl TypeError)"

text \<open>
  What leaves a function of the file instead of a result: an \<open>ErrorResponse\<close> it raises,
  or another exception that nothing in it catches.
\<close>

datatype failure = Raised error_response | Uncaught py_exception

subsection \<open>requires_auth\<close>

text \<open>
  What the decorator reads from a request: the \<open>token\<close> argument
  (\<open>utils.default_arg(request, 'token', None)\<close>), the verdict of the JWT library
  (\<open>request.app.auth.is_authenticated(request)\<close>), the \<open>user\<close> entry of the JWT payload
  (\<open>None\<close> when the payload has none), and the \<open>output_channel\<close> query argument.
  A Python value that may be \<open>None\<close> is an option.
\<close>

record request =
  token_arg :: "string option"
  jwt_is_authenticated :: bool
  jwt_user :: "(string \<rightharpoonup> string) option"
  output_channel_arg :: "string option"

text \<open>\<open>argnames.index("sender_id")\<close>; \<open>None\<close> stands for the \<open>ValueError\<close>.\<close>

fun index_of :: "string list \<Rightarrow> string \<Rightarrow> nat option" where
  "index_of [] x = None"
| "index_of (a # as) x = (if a = x then Some 0 else map_option Suc (index_of as x))"

definition sender_id_from_args ::
  "string list \<Rightarrow> string option list \<Rightarrow> (string \<rightharpoonup> string option) \<Rightarrow> string option" where
  "sender_id_from_args argnames args kwargs =
     (case index_of argnames ''sender_id'' of
        None \<Rightarrow> None
      | Some sender_id_arg_idx \<Rightarrow>
          (case kwargs ''sender_id'' of
             Some v \<Rightarrow> v
           | None \<Rightarrow>
               (if sender_id_arg_idx < length args then args ! sender_id_arg_idx else None)))"

definition jwt_username :: "request \<Rightarrow> string option" where
  "jwt_username request = (case jwt_user request of None \<Rightarrow> None | Some user \<Rightarrow> user ''username'')"

definition jwt_role :: "request \<Rightarrow> string option" where
  "jwt_role request = (case jwt_user request of None \<Rightarrow> None | Some user \<Rightarrow> user ''role'')"

definition sufficient_scope ::
  "string list \<Rightarrow> request \<Rightarrow> string option list \<Rightarrow> (string \<rightharpoonup> string option) \<Rightarrow> bool" where
  "sufficient_scope argnames request args kwargs =
     (let username = jwt_username request; role = jwt_role request in
      if role = Some ''admin'' then True
      else if role = Some ''user'' then
        (let sender_id = sender_id_from_args argnames args kwargs in
         sender_id \<noteq> None \<and> username = sender_id)
      else False)"

text \<open>
  The decorated handler. \<open>token\<close> is the configured shared secret and \<open>USE_JWT\<close> the
  entry of \<open>app.config\<close> (\<open>None\<close> when unset); \<open>f\<close> is the wrapped handler and
  \<open>argnames\<close> its parameter names. The result is the handler's own result or the
  \<open>ErrorResponse\<close> the decorator raises.
\<close>

definition decorated ::
  "constants \<Rightarrow> string option \<Rightarrow> bool option \<Rightarrow> string list
    \<Rightarrow> (request \<Rightarrow> string option list \<Rightarrow> (string \<rightharpoonup> string option) \<Rightarrow> 'r)
    \<Rightarrow> request \<Rightarrow> string option list \<Rightarrow> (string \<rightharpoonup> string option)
    \<Rightarrow> error_response + 'r" where
  "decorated K token USE_JWT argnames f request args kwargs =
     (let provided = token_arg request in
      if token \<noteq> None \<and> provided = token then Inr (f request args kwargs)
      else if USE_JWT = Some True \<and> jwt_is_authenticated request then
        (if sufficient_scope argnames request args kwargs then Inr (f request args kwargs)
         else Inl (ErrorResponse K 403 ''NotAuthorized''
                     (PyStr ''User has insufficient permissions.'')
                     None (Some (docs K ''/server.html#security-considerations''))))
      else if token = None \<and> USE_JWT = None then Inr (f request args kwargs)
      else Inl (ErrorResponse K 401 ''NotAuthenticated'' (PyStr ''User is not authenticated.'')
                  None (Some (docs K ''/server.html#security-considerations''))))"

text \<open>The callback \<open>authenticate\<close> handed to the JWT extension; it raises on every call.\<close>

definition authenticate :: "request \<Rightarrow> failure + unit" where
  "authenticate request =
     Inl (Uncaught (AuthenticationFailed
       (''Direct JWT authentication not supported. You should already have ''
        @ ''a valid JWT from an authentication provider, Rasa will just make ''
        @ ''sure that the token is valid, but not issue new tokens.'')))"

subsection \<open>_get_output_channel\<close>

text \<open>
  A registered input channel answers \<open>name()\<close> and \<open>get_output_channel()\<close>, which may
  be \<open>None\<close>. An output channel is the fresh \<open>CollectingOutputChannel()\<close> or the one an
  input channel created.
\<close>

record 'h input_channel =
  name :: string
  get_output_channel :: "'h option"

datatype 'h output_channel = CollectingOutputChannel | FromInput 'h

datatype verbosity = NONE | APPLIED | AFTER_RESTART | ALL

text \<open>
  What the handlers read from a \<open>DialogueStateTracker\<close>: \<open>get_slot\<close> (slot values as
  optional strings), \<open>get_latest_input_channel()\<close>, \<open>current_state(verbosity)\<close> and
  \<open>as_dialogue()\<close>; the last two may raise. Of the state only the entry
  \<open>latest_event_time\<close> is read: a POSIX timestamp in seconds, a finite float taken by its
  exact value, or \<open>None\<close> when the tracker has no event.
\<close>

record 'd tracker =
  get_slot :: "string \<Rightarrow> string option"
  get_latest_input_channel :: "string option"
  current_state :: "verbosity \<Rightarrow> py_exception + rat option"
  as_dialogue :: "py_exception + 'd"

definition OUTPUT_CHANNEL_QUERY_KEY :: string where
  "OUTPUT_CHANNEL_QUERY_KEY = ''output_channel''"

definition USE_LATEST_INPUT_CHANNEL_AS_OUTPUT_CHANNEL :: string where
  "USE_LATEST_INPUT_CHANNEL_AS_OUTPUT_CHANNEL = ''latest''"

text \<open>
  \<open>registered_input_channels\<close> is \<open>request.app.config.get("input_channels")\<close>; iterating
  over \<open>None\<close> raises \<open>TypeError\<close>. \<open>reduce\<close> with an initial value is a left fold.
\<close>

definition p_get_output_channel ::
  "'h input_channel list option \<Rightarrow> request \<Rightarrow> 'd tracker option
    \<Rightarrow> py_exception + 'h output_channel" where
  "p_get_output_channel registered_input_channels request tracker =
     (let requested_output_channel = output_channel_arg request;
          requested_output_channel =
            (case tracker of
               Some t \<Rightarrow>
                 (if requested_output_channel = Some USE_LATEST_INPUT_CHANNEL_AS_OUTPUT_CHANNEL
                  then get_latest_input_channel t else requested_output_channel)
             | None \<Rightarrow> requested_output_channel)
      in case registered_input_channels of
           None \<Rightarrow> Inl TypeError
         | Some channels \<Rightarrow>
             (let matching_channels =
                    filter (\<lambda>channel. Some (name channel) = requested_output_channel) channels
              in Inr (foldl (\<lambda>output_channel_created_so_far input_channel.
                               (case get_output_channel input_channel of
                                  Some h \<Rightarrow> FromInput h
                                | None \<Rightarrow> output_channel_created_so_far))
                        CollectingOutputChannel matching_channels)))"

subsection \<open>Keys, decoding and the pattern\<close>

text \<open>
  A key of the tracker store, and a sender id, is a \<open>bytes\<close> object (a list of 8-bit
  characters) or a \<open>str\<close> (a list of code points).
\<close>

datatype pyid = Bytes "char list" | Str "nat list"

definition is_cont :: "nat \<Rightarrow> bool" where
  "is_cont b = (128 \<le> b \<and> b \<le> 191)"

text \<open>
  \<open>bytes.decode('utf-8')\<close> in strict mode: well-formed sequences only, neither overlong
  forms nor surrogates nor code points beyond U+10FFFF. \<open>None\<close> is \<open>UnicodeDecodeError\<close>.
\<close>

fun utf8_points :: "nat list \<Rightarrow> nat list option" where
  "utf8_points [] = Some []"
| "utf8_points (b0 # bs) =
     (if b0 < 128 then map_option ((#) b0) (utf8_points bs)
      else if 194 \<le> b0 \<and> b0 \<le> 223 then
        (case bs of
           b1 # r \<Rightarrow>
             (if is_cont b1
              then map_option ((#) ((b0 - 192) * 64 + (b1 - 128))) (utf8_points r)
              else None)
         | _ \<Rightarrow> None)
      else if 224 \<le> b0 \<and> b0 \<le> 239 then
        (case bs of
           b1 # b2 # r \<Rightarrow>
             (if (if b0 = 224 then 160 else 128) \<le> b1 \<and> b1 \<le> (if b0 = 237 then 159 else 191)
                 \<and> is_cont b2
              then map_option ((#) ((b0 - 224) * 4096 + (b1 - 128) * 64 + (b2 - 128)))
                     (utf8_points r)
              else None)
         | _ \<Rightarrow> None)
      else if 240 \<le> b0 \<and> b0 \<le> 244 then
        (case bs of
           b1 # b2 # b3 # r \<Rightarrow>
             (if (if b0 = 240 then 144 else 128) \<le> b1 \<and> b1 \<le> (if b0 = 244 then 143 else 191)
                 \<and> is_cont b2 \<and> is_cont b3
              then map_option
                     ((#) ((b0 - 240) * 262144 + (b1 - 128) * 4096 + (b2 - 128) * 64 + (b3 - 128)))
                     (utf8_points r)
              else None)
         | _ \<Rightarrow> None)
      else None)"

definition decode_utf8 :: "char list \<Rightarrow> nat list option" where
  "decode_utf8 b = utf8_points (map of_char b)"

definition is_digit :: "nat \<Rightarrow> bool" where
  "is_digit c = (48 \<le> c \<and> c \<le> 57)"

text \<open>
  \<open>re.findall('\+[0-9]+', s)\<close>: the non-overlapping matches from left to right, each a
  plus sign (code point 43) and the longest run of ASCII digits after it, which must not
  be empty.
\<close>

function findall_plus_digits :: "nat list \<Rightarrow> nat list list" where
  "findall_plus_digits [] = []"
| "findall_plus_digits (c # cs) =
     (if c = 43 \<and> takeWhile is_digit cs \<noteq> []
      then (c # takeWhile is_digit cs) # findall_plus_digits (dropWhile is_digit cs)
      else findall_plus_digits cs)"
  by pat_completeness auto
termination
  by (relation "measure length") (auto simp: le_imp_less_Suc length_dropWhile_le)

subsection \<open>The application and its collaborators\<close>

text \<open>
  \<open>'w\<close> is the state of the world outside the file (the tracker store and the agent):
  a call that may change it or raise takes the state and returns the new one with its
  result. \<open>tracker_store_keys\<close> is \<open>None\<close> when no tracker store is configured.
\<close>

record ('w, 'd, 'h) app =
  input_channels :: "'h input_channel list option"
  tracker_store_keys :: "'w \<Rightarrow> pyid list option"
  get_or_create_tracker :: "pyid \<Rightarrow> 'w \<Rightarrow> (py_exception + 'd tracker) \<times> 'w"
  init_tracker :: "pyid \<Rightarrow> py_exception + 'd tracker"
  recreate_from_dialogue :: "'d tracker \<Rightarrow> 'd \<Rightarrow> py_exception + 'd tracker"
  handle_text ::
    "string option \<Rightarrow> 'h output_channel \<Rightarrow> pyid \<Rightarrow> 'w \<Rightarrow> (py_exception + unit) \<times> 'w"
  execute_action ::
    "pyid \<Rightarrow> string option \<Rightarrow> 'h output_channel \<Rightarrow> string option \<Rightarrow> string option \<Rightarrow> 'w
      \<Rightarrow> (py_exception + unit) \<times> 'w"

definition retrieve_keys ::
  "constants \<Rightarrow> ('w, 'd, 'h) app \<Rightarrow> 'w \<Rightarrow> error_response + pyid list" where
  "retrieve_keys K app w =
     (case tracker_store_keys app w of
        None \<Rightarrow>
          Inl (ErrorResponse K 503 ''NoTrackerStore''
                 (PyStr (''No tracker store available. Make sure to ''
                         @ ''configure a tracker store when starting '' @ ''the server.''))
                 None None)
      | Some keys \<Rightarrow> Inr (if keys \<noteq> [] then keys else []))"

text \<open>
  The \<open>responses\<close> dict of a sweep, in insertion order. A value is one of the two texts the
  handlers store: \<open>"Message {} handle from id {}"\<close> with its two arguments, or
  \<open>"Action trigger sent"\<close>.
\<close>

datatype outcome = Message_handle "string option" "nat list" | Action_trigger_sent

fun dict_set :: "'k \<Rightarrow> 'v \<Rightarrow> ('k \<times> 'v) list \<Rightarrow> ('k \<times> 'v) list" where
  "dict_set k v [] = [(k, v)]"
| "dict_set k v (p # ps) = (if fst p = k then (k, v) # ps else p # dict_set k v ps)"

subsection \<open>handle_message_w_condition\<close>

text \<open>
  The body of the loop for one key. The request parameters \<open>message_to_handle\<close>,
  \<open>slot_name\<close>, \<open>slot_value\<close> and \<open>force_update\<close> are read before the loop and are
  arguments here. The result is the updated \<open>responses\<close>, or the exception that leaves
  the loop.
\<close>

definition handle_message_id ::
  "('w, 'd, 'h) app \<Rightarrow> request \<Rightarrow> string option \<Rightarrow> string \<Rightarrow> string option \<Rightarrow> bool
    \<Rightarrow> pyid \<Rightarrow> (pyid \<times> outcome) list \<Rightarrow> 'w
    \<Rightarrow> (py_exception + (pyid \<times> outcome) list) \<times> 'w" where
  "handle_message_id app request message_to_handle slot_name slot_value force_update
       ident responses w =
     (case ident of
        Str s \<Rightarrow> (Inl AttributeError, w)
      | Bytes b \<Rightarrow>
          (case decode_utf8 b of
             None \<Rightarrow> (Inl UnicodeDecodeError, w)
           | Some decoded \<Rightarrow>
               (case findall_plus_digits decoded of
                  [] \<Rightarrow> (Inl IndexError, w)
                | sender_id_str # rest \<Rightarrow>
                    (case get_or_create_tracker app (Str sender_id_str) w of
                       (Inl e, w1) \<Rightarrow> (Inl e, w1)
                     | (Inr tracker, w1) \<Rightarrow>
                         (let tracker_slot_value = get_slot tracker slot_name in
                          if force_update \<or> tracker_slot_value = slot_value then
                            (case p_get_output_channel (input_channels app) request (Some tracker) of
                               Inl e \<Rightarrow> (Inl e, w1)
                             | Inr output_channel \<Rightarrow>
                                 (case handle_text app message_to_handle output_channel
                                         (Str sender_id_str) w1 of
                                    (Inl e, w2) \<Rightarrow> (Inl e, w2)
                                  | (Inr u, w2) \<Rightarrow>
                                      (Inr (dict_set ident
                                              (Message_handle message_to_handle sender_id_str)
                                              responses), w2)))
                          else (Inr responses, w1))))))"

fun handle_message_ids ::
  "('w, 'd, 'h) app \<Rightarrow> request \<Rightarrow> string option \<Rightarrow> string \<Rightarrow> string option \<Rightarrow> bool
    \<Rightarrow> pyid list \<Rightarrow> (pyid \<times> outcome) list \<Rightarrow> 'w
    \<Rightarrow> (py_exception + (pyid \<times> outcome) list) \<times> 'w" where
  "handle_message_ids app request message_to_handle slot_name slot_value force_update
       [] responses w = (Inr responses, w)"
| "handle_message_ids app request message_to_handle slot_name slot_value force_update
       (ident # ids) responses w =
     (case handle_message_id app request message_to_handle slot_name slot_value force_update
             ident responses w of
        (Inl e, w') \<Rightarrow> (Inl e, w')
      | (Inr responses', w') \<Rightarrow>
          handle_message_ids app request message_to_handle slot_name slot_value force_update
            ids responses' w')"

text \<open>
  The two \<open>except\<close> clauses around the loop. The first passes the exception object as
  the message, the second formats its text into a string.
\<close>

definition message_error :: "constants \<Rightarrow> py_exception \<Rightarrow> error_response" where
  "message_error K e =
     (if is_ValueError e then ErrorResponse K 400 ''ValueError'' (PyException e) None None
      else ErrorResponse K 500 ''ActionException''
             (PyStr (''Server failure. Error: '' @ str_of_exception K e)) None None)"

definition handle_message_w_condition ::
  "constants \<Rightarrow> ('w, 'd, 'h) app \<Rightarrow> request \<Rightarrow> string option \<Rightarrow> string \<Rightarrow> string option
    \<Rightarrow> bool \<Rightarrow> 'w \<Rightarrow> (error_response + (pyid \<times> outcome) list) \<times> 'w" where
  "handle_message_w_condition K app request message_to_handle slot_name slot_value
       force_update w =
     (case retrieve_keys K app w of
        Inl err \<Rightarrow> (Inl err, w)
      | Inr ids \<Rightarrow>
          (case handle_message_ids app request message_to_handle slot_name slot_value
                  force_update ids [] w of
             (Inl e, w') \<Rightarrow> (Inl (message_error K e), w')
           | (Inr responses, w') \<Rightarrow> (Inr responses, w')))"

subsection \<open>trigger_resume_inactive_conv\<close>

text \<open>
  A \<open>datetime\<close> is its number of microseconds since the epoch, a \<open>timedelta\<close> a number
  of microseconds, and \<open>total_seconds()\<close> their quotient by \<open>10^6\<close>.

  \<open>datetime.utcfromtimestamp\<close> rounds the timestamp to the nearest microsecond, a tie to
  the even one, and raises when the result is not a date of the years 1 to 9999.
\<close>

definition round_half_even :: "rat \<Rightarrow> int" where
  "round_half_even x =
     (let f = \<lfloor>x\<rfloor>; d = x - of_int f
      in if d < 1 / 2 then f else if 1 / 2 < d then f + 1 else if even f then f else f + 1)"

definition utcfromtimestamp :: "constants \<Rightarrow> rat \<Rightarrow> py_exception + int" where
  "utcfromtimestamp K timestamp =
     (let us = round_half_even (timestamp * 1000000)
      in if - 62135596800000000 \<le> us \<and> us \<le> 253402300799999999 then Inr us
         else Inl (timestamp_out_of_range K timestamp))"

definition total_seconds :: "int \<Rightarrow> rat" where
  "total_seconds td = of_int td / 1000000"

definition compare_utcdatetime_with_timegap :: "int \<Rightarrow> int \<Rightarrow> int \<Rightarrow> bool" where
  "compare_utcdatetime_with_timegap dt_a dt_b gap = (total_seconds (dt_a - dt_b) \<ge> of_int gap)"

text \<open>
  The two \<open>except\<close> clauses around the action. The first passes the exception object as
  the message, the second formats its text into a string.
\<close>

definition resume_error :: "constants \<Rightarrow> py_exception \<Rightarrow> error_response" where
  "resume_error K e =
     (if is_ValueError e then ErrorResponse K 400 ''ValueError'' (PyException e) None None
      else ErrorResponse K 500 ''ValueError''
             (PyStr (''Server failure. Error: '' @ str_of_exception K e)) None None)"

text \<open>
  The body of the loop for one key; \<open>action_to_execute\<close>, \<open>policy\<close>, \<open>confidence\<close>,
  \<open>force_update\<close> and \<open>verbosity\<close> are read before the loop, and \<open>current_time\<close> is
  \<open>datetime.datetime.utcnow()\<close>, taken once before it. Everything up to the staleness
  test stands outside the \<open>try\<close> block, so an exception raised there leaves the handler
  as it is; \<open>utcfromtimestamp(None)\<close> raises \<open>TypeError\<close>.
\<close>

definition resume_id ::
  "constants \<Rightarrow> ('w, 'd, 'h) app \<Rightarrow> request \<Rightarrow> string option \<Rightarrow> string option \<Rightarrow> string option
    \<Rightarrow> bool \<Rightarrow> verbosity \<Rightarrow> int \<Rightarrow> pyid \<Rightarrow> (pyid \<times> outcome) list \<Rightarrow> 'w
    \<Rightarrow> (failure + (pyid \<times> outcome) list) \<times> 'w" where
  "resume_id K app request action_to_execute policy confidence force_update verbosity
       current_time ident responses w =
     (case get_or_create_tracker app ident w of
        (Inl e, w1) \<Rightarrow> (Inl (Uncaught e), w1)
      | (Inr tracker, w1) \<Rightarrow>
     (case current_state tracker verbosity of
        Inl e \<Rightarrow> (Inl (Uncaught e), w1)
      | Inr id_state_latest_event_time \<Rightarrow>
     (case as_dialogue tracker of
        Inl e \<Rightarrow> (Inl (Uncaught e), w1)
      | Inr tracker_dialogue \<Rightarrow>
     (case init_tracker app ident of
        Inl e \<Rightarrow> (Inl (Uncaught e), w1)
      | Inr fresh_tracker \<Rightarrow>
     (case recreate_from_dialogue app fresh_tracker tracker_dialogue of
        Inl e \<Rightarrow> (Inl (Uncaught e), w1)
      | Inr new_tracker \<Rightarrow>
     (case id_state_latest_event_time of
        None \<Rightarrow> (Inl (Uncaught TypeError), w1)
      | Some timestamp \<Rightarrow>
     (case utcfromtimestamp K timestamp of
        Inl e \<Rightarrow> (Inl (Uncaught e), w1)
      | Inr last_event_ts_from_id \<Rightarrow>
          (let seconds_in_a_day = 86400 in
           if force_update
              \<or> compare_utcdatetime_with_timegap current_time last_event_ts_from_id
                   seconds_in_a_day
           then
             (case p_get_output_channel (input_channels app) request (Some new_tracker) of
                Inl e \<Rightarrow> (Inl (Raised (resume_error K e)), w1)
              | Inr output_channel \<Rightarrow>
                  (case execute_action app ident action_to_execute output_channel
                          policy confidence w1 of
                     (Inl e, w2) \<Rightarrow> (Inl (Raised (resume_error K e)), w2)
                   | (Inr u, w2) \<Rightarrow>
                       (Inr (dict_set ident Action_trigger_sent responses), w2)))
           else (Inr responses, w1)))))))))"

fun resume_ids ::
  "constants \<Rightarrow> ('w, 'd, 'h) app \<Rightarrow> request \<Rightarrow> string option \<Rightarrow> string option \<Rightarrow> string option
    \<Rightarrow> bool \<Rightarrow> verbosity \<Rightarrow> int \<Rightarrow> pyid list \<Rightarrow> (pyid \<times> outcome) list \<Rightarrow> 'w
    \<Rightarrow> (failure + (pyid \<times> outcome) list) \<times> 'w" where
  "resume_ids K app request action_to_execute policy confidence force_update verbosity
       current_time [] responses w = (Inr responses, w)"
| "resume_ids K app request action_to_execute policy confidence force_update verbosity
       current_time (ident # ids) responses w =
     (case resume_id K app request action_to_execute policy confidence force_update verbosity
             current_time ident responses w of
        (Inl e, w') \<Rightarrow> (Inl e, w')
      | (Inr responses', w') \<Rightarrow>
          resume_ids K app request action_to_execute policy confidence force_update verbosity
            current_time ids responses' w')"

definition trigger_resume_inactive_conv ::
  "constants \<Rightarrow> ('w, 'd, 'h) app \<Rightarrow> request \<Rightarrow> string option \<Rightarrow> string option \<Rightarrow> string option
    \<Rightarrow> bool \<Rightarrow> verbosity \<Rightarrow> int \<Rightarrow> 'w \<Rightarrow> (failure + (pyid \<times> outcome) list) \<times> 'w" where
  "trigger_resume_inactive_conv K app request action_to_execute policy confidence
       force_update verbosity current_time w =
     (case retrieve_keys K app w of
        Inl err \<Rightarrow> (Inl (Raised err), w)
      | Inr ids \<Rightarrow>
          resume_ids K app request action_to_execute policy confidence force_update verbosity
            current_time ids [] w)"

subsection \<open>A concrete deployment\<close>

text \<open>
  Concrete values on which the theorems below are exercised. The state of the world is
  the list of sender ids the agent has acted on, in order. The clock stands at
  1700000000 seconds. Every conversation has the slot \<open>subscribed\<close> set to \<open>yes\<close> and a
  last event exactly one day old, except that
  \<^item> the agent fails on the sender \<open>+2\<close> with an \<open>Exception\<close> and on \<open>+6\<close> with a
    \<open>ValueError\<close>;
  \<^item> the conversation \<open>+4\<close> has the slot set to \<open>no\<close> and a last event one second
    younger than a day;
  \<^item> the tracker store fails on the sender \<open>+5\<close>;
  \<^item> the conversation \<open>+7\<close> has no event, \<open>+8\<close> a timestamp beyond the year 9999, and
    \<open>+9\<close> a last event \<open>2^-22\<close> seconds younger than a day, at
    \<open>7129954412134401 / 4194304 = 1699913600 + 2^-22\<close> seconds.
\<close>

definition example_constants :: constants where
  "example_constants =
     \<lparr> rasa_version = ''0.14.0'', DOCS_BASE_URL = ''https://rasa.com/docs/core'',
       str_of_exception =
         (\<lambda>e. case e of
                UnicodeDecodeError \<Rightarrow> ''invalid start byte''
              | IndexError \<Rightarrow> ''list index out of range''
              | AttributeError \<Rightarrow> ''no attribute decode''
              | TypeError \<Rightarrow> ''an integer is required''
              | AuthenticationFailed m \<Rightarrow> m
              | ValueError m \<Rightarrow> m
              | Exception m \<Rightarrow> m),
       timestamp_out_of_range = (\<lambda>timestamp. ValueError ''year is out of range'') \<rparr>"

definition example_request :: request where
  "example_request =
     \<lparr> token_arg = None, jwt_is_authenticated = True,
       jwt_user = Some [''username'' \<mapsto> ''alice'', ''role'' \<mapsto> ''user''],
       output_channel_arg = Some ''latest'' \<rparr>"

definition example_handler :: "request \<Rightarrow> string option list \<Rightarrow> (string \<rightharpoonup> string option) \<Rightarrow> string" where
  "example_handler request args kwargs = ''handled''"

definition example_now :: int where
  "example_now = 1700000000000000"

definition example_timestamp :: "pyid \<Rightarrow> rat option" where
  "example_timestamp ident =
     (if ident = Bytes ''+4'' then Some 1699913601
      else if ident = Bytes ''+7'' then None
      else if ident = Bytes ''+8'' then Some 1000000000000000
      else if ident = Bytes ''+9'' then Some (7129954412134401 / 4194304)
      else Some 1699913600)"

definition example_tracker :: "pyid \<Rightarrow> unit tracker" where
  "example_tracker ident =
     \<lparr> get_slot = (\<lambda>slot. if slot = ''subscribed''
                         then (if ident = Str [43, 52] then Some ''no'' else Some ''yes'')
                         else None),
       get_latest_input_channel = Some ''telegram'',
       current_state = (\<lambda>verbosity. Inr (example_timestamp ident)),
       as_dialogue = Inr () \<rparr>"

definition example_app :: "pyid list \<Rightarrow> (pyid list, unit, string) app" where
  "example_app keys =
     \<lparr> input_channels = Some [\<lparr>name = ''telegram'', get_output_channel = Some ''telegram-out''\<rparr>],
       tracker_store_keys = (\<lambda>w. Some keys),
       get_or_create_tracker =
         (\<lambda>ident w. if ident = Bytes ''+5'' \<or> ident = Str [43, 53]
                    then (Inl (Exception ''store down''), w)
                    else (Inr (example_tracker ident), w)),
       init_tracker = (\<lambda>ident. Inr (example_tracker ident)),
       recreate_from_dialogue = (\<lambda>t d. Inr t),
       handle_text =
         (\<lambda>message output_channel sender_id w.
            if sender_id = Str [43, 50] then (Inl (Exception ''boom''), w)
            else if sender_id = Str [43, 54] then (Inl (ValueError ''bad value''), w)
            else (Inr (), w @ [sender_id])),
       execute_action =
         (\<lambda>sender_id action output_channel policy confidence w.
            if sender_id = Bytes ''+2'' then (Inl (Exception ''boom''), w)
            else if sender_id = Bytes ''+6'' then (Inl (ValueError ''bad value''), w)
            else (Inr (), w @ [sender_id])) \<rparr>"

section \<open>The authorization gate\<close>

text \<open>
  C3. When a shared secret is configured and the token of the request equals it, the
  decorator calls the handler and returns its result, whatever the JWT configuration, the
  JWT payload, the role and the target sender id are.
\<close>

theorem shared_secret_grants_unconditionally:
  assumes "token = Some secret" and "token_arg request = Some secret"
  shows "decorated K token USE_JWT argnames f request args kwargs = Inr (f request args kwargs)"
  using assms by (simp add: decorated_def)

theorem shared_secret_grants_unconditionally_witness:
  "token_arg (example_request\<lparr>token_arg := Some ''s3cret''\<rparr>) = Some ''s3cret''
   \<and> jwt_username (example_request\<lparr>token_arg := Some ''s3cret''\<rparr>) = Some ''alice''
   \<and> sender_id_from_args [''request'', ''sender_id''] [] [''sender_id'' \<mapsto> Some ''bob'']
       = Some ''bob''
   \<and> decorated example_constants (Some ''s3cret'') (Some True) [''request'', ''sender_id'']
         example_handler (example_request\<lparr>token_arg := Some ''s3cret''\<rparr>) []
         [''sender_id'' \<mapsto> Some ''bob'']
       = Inr ''handled''"
  using shared_secret_grants_unconditionally
    [where token = "Some ''s3cret''" and secret = "''s3cret''"
       and request = "example_request\<lparr>token_arg := Some ''s3cret''\<rparr>"
       and K = example_constants and USE_JWT = "Some True"
       and argnames = "[''request'', ''sender_id'']" and f = example_handler
       and args = "[]" and kwargs = "[''sender_id'' \<mapsto> Some ''bob'']"]
  by (simp add: example_request_def example_handler_def jwt_username_def sender_id_from_args_def)

text \<open>
  C5. With no shared secret and no \<open>USE_JWT\<close> entry in the configuration, the decorator
  calls the handler for every request. It is a function of its arguments alone, so a
  repeated request gets the same answer.
\<close>

theorem disabled_mode_grants:
  "decorated K None None argnames f request args kwargs = Inr (f request args kwargs)"
  by (simp add: decorated_def)

text \<open>
  C6. A request that none of the three branches accepts (the token is not the configured
  secret, JWT is not both enabled and satisfied, and authentication is not disabled) fails
  with the 401 \<open>NotAuthenticated\<close> response, which is not the 403 \<open>NotAuthorized\<close> one.
\<close>

theorem unmatched_request_is_unauthenticated:
  assumes "\<not> (token \<noteq> None \<and> token_arg request = token)"
    and "\<not> (USE_JWT = Some True \<and> jwt_is_authenticated request)"
    and "\<not> (token = None \<and> USE_JWT = None)"
  shows "decorated K token USE_JWT argnames f request args kwargs =
           Inl (ErrorResponse K 401 ''NotAuthenticated'' (PyStr ''User is not authenticated.'') None
                  (Some (docs K ''/server.html#security-considerations'')))
         \<and> decorated K token USE_JWT argnames f request args kwargs \<noteq>
           Inl (ErrorResponse K 403 ''NotAuthorized'' (PyStr ''User has insufficient permissions.'') None
                  (Some (docs K ''/server.html#security-considerations'')))"
  using assms by (auto simp add: decorated_def ErrorResponse_def)

theorem unmatched_request_is_unauthenticated_witness:
  "decorated example_constants (Some ''s3cret'') None [''request'', ''sender_id'']
       example_handler (example_request\<lparr>token_arg := Some ''guess''\<rparr>) [] Map.empty
     = Inl (ErrorResponse example_constants 401 ''NotAuthenticated'' (PyStr ''User is not authenticated.'')
              None (Some (docs example_constants ''/server.html#security-considerations'')))
   \<and> decorated example_constants None (Some True) [''request'', ''sender_id'']
       example_handler (example_request\<lparr>jwt_is_authenticated := False\<rparr>) [] Map.empty
     = Inl (ErrorResponse example_constants 401 ''NotAuthenticated'' (PyStr ''User is not authenticated.'')
              None (Some (docs example_constants ''/server.html#security-considerations'')))"
  using unmatched_request_is_unauthenticated
    [where token = "Some ''s3cret''" and USE_JWT = None
       and request = "example_request\<lparr>token_arg := Some ''guess''\<rparr>"
       and K = example_constants and argnames = "[''request'', ''sender_id'']"
       and f = example_handler and args = "[]" and kwargs = Map.empty]
    unmatched_request_is_unauthenticated
    [where token = None and USE_JWT = "Some True"
       and request = "example_request\<lparr>jwt_is_authenticated := False\<rparr>"
       and K = example_constants and argnames = "[''request'', ''sender_id'']"
       and f = example_handler and args = "[]" and kwargs = Map.empty]
  by (simp add: example_request_def)

text \<open>
  C2. A request that reaches the JWT branch with the role \<open>user\<close> is granted exactly when
  the handler's \<open>sender_id\<close> argument is present and equals the username of the token;
  otherwise, and so whenever there is no \<open>sender_id\<close>, it fails with the 403
  \<open>NotAuthorized\<close> response.
\<close>

theorem user_role_scope:
  assumes "\<not> (token \<noteq> None \<and> token_arg request = token)"
    and "USE_JWT = Some True" and "jwt_is_authenticated request"
    and "jwt_role request = Some ''user''"
  shows "decorated K token USE_JWT argnames f request args kwargs =
           (if (case sender_id_from_args argnames args kwargs of
                  None \<Rightarrow> False
                | Some target \<Rightarrow> jwt_username request = Some target)
            then Inr (f request args kwargs)
            else Inl (ErrorResponse K 403 ''NotAuthorized'' (PyStr ''User has insufficient permissions.'')
                        None (Some (docs K ''/server.html#security-considerations''))))"
  using assms by (auto simp add: decorated_def sufficient_scope_def split: option.splits)

theorem user_role_scope_witness:
  "decorated example_constants None (Some True) [''request'', ''sender_id'']
       example_handler example_request [] [''sender_id'' \<mapsto> Some ''alice'']
     = Inr ''handled''
   \<and> decorated example_constants None (Some True) [''request'', ''sender_id'']
       example_handler example_request [] [''sender_id'' \<mapsto> Some ''bob'']
     = Inl (ErrorResponse example_constants 403 ''NotAuthorized''
              (PyStr ''User has insufficient permissions.'') None
              (Some (docs example_constants ''/server.html#security-considerations'')))
   \<and> decorated example_constants None (Some True) [''request'']
       example_handler example_request [] Map.empty
     = Inl (ErrorResponse example_constants 403 ''NotAuthorized''
              (PyStr ''User has insufficient permissions.'') None
              (Some (docs example_constants ''/server.html#security-considerations'')))"
  using user_role_scope
    [where token = None and USE_JWT = "Some True" and request = example_request
       and K = example_constants and argnames = "[''request'', ''sender_id'']"
       and f = example_handler and args = "[]" and kwargs = "[''sender_id'' \<mapsto> Some ''alice'']"]
    user_role_scope
    [where token = None and USE_JWT = "Some True" and request = example_request
       and K = example_constants and argnames = "[''request'', ''sender_id'']"
       and f = example_handler and args = "[]" and kwargs = "[''sender_id'' \<mapsto> Some ''bob'']"]
    user_role_scope
    [where token = None and USE_JWT = "Some True" and request = example_request
       and K = example_constants and argnames = "[''request'']"
       and f = example_handler and args = "[]" and kwargs = Map.empty]
  by (simp add: example_request_def example_handler_def jwt_username_def jwt_role_def
      sender_id_from_args_def)

section \<open>Auxiliary facts\<close>

subsection \<open>The pattern\<close>

lemma takeWhile_nonempty: "takeWhile P cs \<noteq> [] \<longleftrightarrow> cs \<noteq> [] \<and> P (hd cs)"
  by (cases cs) auto

lemma ex_nat_split: "(\<exists>i. P i) \<longleftrightarrow> P 0 \<or> (\<exists>j. P (Suc j))"
  by (metis not0_implies_Suc)

lemma findall_empty_iff:
  "findall_plus_digits d = [] \<longleftrightarrow>
     \<not> (\<exists>i. Suc i < length d \<and> d ! i = 43 \<and> is_digit (d ! Suc i))"
proof (induction d rule: findall_plus_digits.induct)
  case 1
  show ?case by simp
next
  case (2 c cs)
  show ?case
  proof (cases "c = 43 \<and> takeWhile is_digit cs \<noteq> []")
    case True
    then have "cs \<noteq> []" and "is_digit (hd cs)"
      by (simp_all add: takeWhile_nonempty)
    then have "Suc 0 < length (c # cs) \<and> (c # cs) ! 0 = 43 \<and> is_digit ((c # cs) ! Suc 0)"
      using True by (cases cs) simp_all
    then have "\<exists>i. Suc i < length (c # cs) \<and> (c # cs) ! i = 43 \<and> is_digit ((c # cs) ! Suc i)"
      by blast
    with True show ?thesis by simp
  next
    case False
    then have no_head: "\<not> (Suc 0 < length (c # cs) \<and> (c # cs) ! 0 = 43 \<and> is_digit ((c # cs) ! Suc 0))"
      by (cases cs) (auto simp: takeWhile_nonempty)
    have "findall_plus_digits (c # cs) = findall_plus_digits cs"
      using False by auto
    moreover have "findall_plus_digits cs = [] \<longleftrightarrow>
        \<not> (\<exists>i. Suc i < length cs \<and> cs ! i = 43 \<and> is_digit (cs ! Suc i))"
      using 2(2) False by blast
    moreover have "(\<exists>i. Suc i < length (c # cs) \<and> (c # cs) ! i = 43 \<and> is_digit ((c # cs) ! Suc i))
        \<longleftrightarrow> (\<exists>i. Suc i < length cs \<and> cs ! i = 43 \<and> is_digit (cs ! Suc i))"
      using no_head
      by (subst ex_nat_split) auto
    ultimately show ?thesis by simp
  qed
qed

lemma findall_first_match:
  "findall_plus_digits d = s # rest \<Longrightarrow>
     \<exists>xs ds ys. d = xs @ s @ ys \<and> findall_plus_digits xs = [] \<and> s = 43 # ds \<and> ds \<noteq> []
       \<and> list_all is_digit ds \<and> (ys = [] \<or> \<not> is_digit (hd ys))"
proof (induction d rule: findall_plus_digits.induct)
  case 1
  then show ?case by simp
next
  case (2 c cs)
  show ?case
  proof (cases "c = 43 \<and> takeWhile is_digit cs \<noteq> []")
    case True
    with 2(3) have s: "s = 43 # takeWhile is_digit cs" by simp
    have "c # cs = [] @ s @ dropWhile is_digit cs"
      using True s by simp
    moreover have "list_all is_digit (takeWhile is_digit cs)"
      by (auto simp: list_all_iff dest: set_takeWhileD)
    moreover have "dropWhile is_digit cs = [] \<or> \<not> is_digit (hd (dropWhile is_digit cs))"
      using hd_dropWhile [of is_digit cs] by blast
    ultimately show ?thesis using True s
      by (metis findall_plus_digits.simps(1))
  next
    case False
    with 2(3) have "findall_plus_digits cs = s # rest" by auto
    with 2(2) False obtain xs ds ys where
      cs: "cs = xs @ s @ ys" and none: "findall_plus_digits xs = []" and
      s: "s = 43 # ds" "ds \<noteq> []" "list_all is_digit ds" and
      ys: "ys = [] \<or> \<not> is_digit (hd ys)"
      by blast
    have "\<not> is_digit 43" by (simp add: is_digit_def)
    then have "takeWhile is_digit xs \<noteq> [] \<longrightarrow> takeWhile is_digit cs \<noteq> []"
      using cs by (cases xs) auto
    then have "findall_plus_digits (c # xs) = []"
      using False none by auto
    moreover have "c # cs = (c # xs) @ s @ ys" using cs by simp
    ultimately show ?thesis using s ys by blast
  qed
qed

subsection \<open>The resolver's fold\<close>

lemma foldl_output_channel:
  "foldl (\<lambda>acc ch. case get_output_channel ch of Some h \<Rightarrow> FromInput h | None \<Rightarrow> acc) acc xs =
     (if filter (\<lambda>ch. get_output_channel ch \<noteq> None) xs = [] then acc
      else FromInput (the (get_output_channel (last (filter (\<lambda>ch. get_output_channel ch \<noteq> None) xs)))))"
  by (induction xs rule: rev_induct) (auto split: option.splits)

subsection \<open>The loops\<close>

lemma retrieve_keys_Some: "tracker_store_keys app w = Some ids \<Longrightarrow> retrieve_keys K app w = Inr ids"
  by (simp add: retrieve_keys_def)

lemma handle_message_ids_append:
  "handle_message_ids app request m sn sv fu (xs @ ys) r w =
     (case handle_message_ids app request m sn sv fu xs r w of
        (Inl e, w') \<Rightarrow> (Inl e, w')
      | (Inr r', w') \<Rightarrow> handle_message_ids app request m sn sv fu ys r' w')"
  by (induction xs arbitrary: r w) (auto split: prod.splits sum.splits)

lemma resume_ids_append:
  "resume_ids K app request a p c fu v now (xs @ ys) r w =
     (case resume_ids K app request a p c fu v now xs r w of
        (Inl e, w') \<Rightarrow> (Inl e, w')
      | (Inr r', w') \<Rightarrow> resume_ids K app request a p c fu v now ys r' w')"
  by (induction xs arbitrary: r w) (auto split: prod.splits sum.splits)

lemma dict_set_keys: "fst ` set (dict_set k v d) = insert k (fst ` set d)"
  by (induction d) auto

lemma dict_set_distinct: "distinct (map fst d) \<Longrightarrow> distinct (map fst (dict_set k v d))"
  by (induction d) (auto simp: dict_set_keys)

lemma handle_message_id_result:
  "handle_message_id app request m sn sv fu k r w = (Inr r', w') \<Longrightarrow>
     r' = r \<or> (\<exists>s. r' = dict_set k (Message_handle m s) r)"
  by (auto simp: handle_message_id_def Let_def
      split: pyid.splits option.splits list.splits prod.splits sum.splits if_splits)

lemma handle_message_ids_keys:
  "handle_message_ids app request m sn sv fu ids r w = (Inr r', w') \<Longrightarrow>
     fst ` set r' \<subseteq> fst ` set r \<union> set ids \<and> (distinct (map fst r) \<longrightarrow> distinct (map fst r'))"
proof (induction ids arbitrary: r w)
  case Nil
  then show ?case by simp
next
  case (Cons k ids)
  from Cons.prems obtain r1 w1 where
    step: "handle_message_id app request m sn sv fu k r w = (Inr r1, w1)" and
    rest: "handle_message_ids app request m sn sv fu ids r1 w1 = (Inr r', w')"
    by (auto split: prod.splits sum.splits)
  from handle_message_id_result [OF step]
  have sub: "fst ` set r1 \<subseteq> insert k (fst ` set r)"
    and dist: "distinct (map fst r) \<longrightarrow> distinct (map fst r1)"
    by (elim disjE exE; simp add: dict_set_keys dict_set_distinct subset_insertI)+
  from Cons.IH [OF rest]
  have sub': "fst ` set r' \<subseteq> fst ` set r1 \<union> set ids"
    and dist': "distinct (map fst r1) \<longrightarrow> distinct (map fst r')"
    by blast+
  have "fst ` set r' \<subseteq> fst ` set r \<union> insert k (set ids)"
    using sub sub' by blast
  then show ?case using dist dist' by simp
qed

lemma omitted_key_bound:
  assumes keys: "fst ` set responses \<subseteq> set pre \<union> set post"
    and dist: "distinct (map fst responses)"
    and k: "k \<notin> set pre" "k \<notin> set post"
  shows "k \<notin> fst ` set responses \<and> length responses < length (pre @ k # post)"
proof
  show "k \<notin> fst ` set responses" using keys k by blast
  have "length responses = card (fst ` set responses)"
    using dist by (metis distinct_card length_map set_map)
  also have "\<dots> \<le> card (set pre \<union> set post)"
    using keys by (simp add: card_mono)
  also have "\<dots> \<le> length pre + length post"
    by (metis add_mono card_Un_le card_length le_trans)
  finally show "length responses < length (pre @ k # post)" by simp
qed

text \<open>The definitions that evaluating the concrete deployment unfolds.\<close>

lemma resume_id_result:
  "resume_id K app request a p c fu v now k r w = (Inr r', w') \<Longrightarrow>
     r' = r \<or> r' = dict_set k Action_trigger_sent r"
  by (auto simp: resume_id_def Let_def
      split: option.splits prod.splits sum.splits if_splits)

lemma resume_ids_keys:
  "resume_ids K app request a p c fu v now ids r w = (Inr r', w') \<Longrightarrow>
     fst ` set r' \<subseteq> fst ` set r \<union> set ids \<and> (distinct (map fst r) \<longrightarrow> distinct (map fst r'))"
proof (induction ids arbitrary: r w)
  case Nil
  then show ?case by simp
next
  case (Cons k ids)
  from Cons.prems obtain r1 w1 where
    step: "resume_id K app request a p c fu v now k r w = (Inr r1, w1)" and
    rest: "resume_ids K app request a p c fu v now ids r1 w1 = (Inr r', w')"
    by (auto split: prod.splits sum.splits)
  from resume_id_result [OF step]
  have sub: "fst ` set r1 \<subseteq> insert k (fst ` set r)"
    and dist: "distinct (map fst r) \<longrightarrow> distinct (map fst r1)"
    by (elim disjE exE; simp add: dict_set_keys dict_set_distinct subset_insertI)+
  from Cons.IH [OF rest]
  have sub': "fst ` set r' \<subseteq> fst ` set r1 \<union> set ids"
    and dist': "distinct (map fst r1) \<longrightarrow> distinct (map fst r')"
    by blast+
  have "fst ` set r' \<subseteq> fst ` set r \<union> insert k (set ids)"
    using sub sub' by blast
  then show ?case using dist dist' by simp
qed

lemma is_ValueError_iff: "is_ValueError e \<longleftrightarrow> e = UnicodeDecodeError \<or> (\<exists>msg. e = ValueError msg)"
  by (cases e) auto

lemma message_error_explicit:
  "message_error K e =
     (if e = UnicodeDecodeError \<or> (\<exists>msg. e = ValueError msg)
                   then ErrorResponse K 400 ''ValueError'' (PyException e) None None
                   else ErrorResponse K 500 ''ActionException''
                          (PyStr (''Server failure. Error: '' @ str_of_exception K e))
                          None None)"
  by (simp add: message_error_def is_ValueError_iff)

lemma resume_error_explicit:
  "resume_error K e =
     (if e = UnicodeDecodeError \<or> (\<exists>msg. e = ValueError msg)
                   then ErrorResponse K 400 ''ValueError'' (PyException e) None None
                   else ErrorResponse K 500 ''ValueError''
                          (PyStr (''Server failure. Error: '' @ str_of_exception K e))
                          None None)"
  by (simp add: resume_error_def is_ValueError_iff)

lemma handle_message_id_fails_iff:
  "handle_message_id app request m sn sv fu k r w = (Inl e, w') \<longleftrightarrow>
     (case k of
        Str s \<Rightarrow> e = AttributeError \<and> w' = w
      | Bytes b \<Rightarrow>
          (case decode_utf8 b of
             None \<Rightarrow> e = UnicodeDecodeError \<and> w' = w
           | Some decoded \<Rightarrow>
               (case findall_plus_digits decoded of
                  [] \<Rightarrow> e = IndexError \<and> w' = w
                | sender_id_str # rest \<Rightarrow>
                    (case get_or_create_tracker app (Str sender_id_str) w of
                       (Inl e1, w1) \<Rightarrow> e = e1 \<and> w' = w1
                     | (Inr tracker, w1) \<Rightarrow>
                         (fu \<or> get_slot tracker sn = sv)
                         \<and> (case p_get_output_channel (input_channels app) request (Some tracker) of
                              Inl e2 \<Rightarrow> e = e2 \<and> w' = w1
                            | Inr output_channel \<Rightarrow>
                                handle_text app m output_channel (Str sender_id_str) w1
                                  = (Inl e, w'))))))"
  by (auto simp: handle_message_id_def Let_def
      split: pyid.splits option.splits list.splits prod.splits sum.splits)

lemma resume_id_fails_iff:
  "resume_id K app request a p c fu v now k r w = (Inl fl, w') \<longleftrightarrow>
     (case get_or_create_tracker app k w of
        (Inl e, w1) \<Rightarrow> fl = Uncaught e \<and> w' = w1
      | (Inr tracker, w1) \<Rightarrow>
     (case current_state tracker v of
        Inl e \<Rightarrow> fl = Uncaught e \<and> w' = w1
      | Inr latest \<Rightarrow>
     (case as_dialogue tracker of
        Inl e \<Rightarrow> fl = Uncaught e \<and> w' = w1
      | Inr dialogue \<Rightarrow>
     (case init_tracker app k of
        Inl e \<Rightarrow> fl = Uncaught e \<and> w' = w1
      | Inr fresh_tracker \<Rightarrow>
     (case recreate_from_dialogue app fresh_tracker dialogue of
        Inl e \<Rightarrow> fl = Uncaught e \<and> w' = w1
      | Inr new_tracker \<Rightarrow>
     (case latest of
        None \<Rightarrow> fl = Uncaught TypeError \<and> w' = w1
      | Some timestamp \<Rightarrow>
     (case utcfromtimestamp K timestamp of
        Inl e \<Rightarrow> fl = Uncaught e \<and> w' = w1
      | Inr last_event \<Rightarrow>
          (fu \<or> compare_utcdatetime_with_timegap now last_event 86400)
          \<and> (case p_get_output_channel (input_channels app) request (Some new_tracker) of
               Inl e \<Rightarrow> fl = Raised (resume_error K e) \<and> w' = w1
             | Inr output_channel \<Rightarrow>
                 (\<exists>e. execute_action app k a output_channel p c w1 = (Inl e, w')
                      \<and> fl = Raised (resume_error K e))))))))))"
  by (auto simp: resume_id_def Let_def
      split: option.splits prod.splits sum.splits)

subsection \<open>The timestamp conversion\<close>

lemma round_half_even_near: "\<bar>of_int (round_half_even x) - x\<bar> \<le> 1 / 2"
proof -
  have lo: "of_int \<lfloor>x\<rfloor> \<le> x" and hi: "x < of_int \<lfloor>x\<rfloor> + 1"
    by linarith+
  consider "x - of_int \<lfloor>x\<rfloor> < 1 / 2" | "1 / 2 < x - of_int \<lfloor>x\<rfloor>"
    | "x - of_int \<lfloor>x\<rfloor> = 1 / 2"
    by linarith
  then show ?thesis
  proof cases
    case 1
    then have "round_half_even x = \<lfloor>x\<rfloor>" by (simp add: round_half_even_def)
    with 1 lo show ?thesis by (simp add: abs_le_iff)
  next
    case 2
    then have "round_half_even x = \<lfloor>x\<rfloor> + 1" by (simp add: round_half_even_def)
    with 2 hi show ?thesis by (simp add: abs_le_iff)
  next
    case 3
    then have "round_half_even x = \<lfloor>x\<rfloor> \<or> round_half_even x = \<lfloor>x\<rfloor> + 1"
      by (simp add: round_half_even_def Let_def)
    with 3 show ?thesis by (auto simp: abs_le_iff)
  qed
qed

text \<open>The definitions and conversions that evaluating the concrete deployment unfolds.\<close>

lemma example_timestamps:
  "utcfromtimestamp example_constants 1699913600 = Inr 1699913600000000"
  "utcfromtimestamp example_constants 1699913601 = Inr 1699913601000000"
  "utcfromtimestamp example_constants 1000000000000000 = Inl (ValueError ''year is out of range'')"
  "utcfromtimestamp example_constants (7129954412134401 / 4194304) = Inr 1699913600000000"
  by (simp_all add: utcfromtimestamp_def round_half_even_def example_constants_def) code_simp

lemma example_texts:
  "str_of_exception example_constants (Exception text) = text"
  "str_of_exception example_constants (ValueError text) = text"
  "str_of_exception example_constants IndexError = ''list index out of range''"
  "str_of_exception example_constants AttributeError = ''no attribute decode''"
  by (simp_all add: example_constants_def)

lemmas example_defs =
  example_app_def example_tracker_def example_timestamp_def example_request_def
  example_now_def example_timestamps example_texts
  handle_message_w_condition_def trigger_resume_inactive_conv_def retrieve_keys_def
  handle_message_id_def resume_id_def decode_utf8_def is_digit_def is_cont_def
  p_get_output_channel_def USE_LATEST_INPUT_CHANNEL_AS_OUTPUT_CHANNEL_def
  message_error_def resume_error_def compare_utcdatetime_with_timegap_def total_seconds_def

section \<open>The output channel\<close>

text \<open>
  C4, as amended. Among the registered channels whose name is the requested one (the
  latest input channel of the tracker when the request says \<open>latest\<close> and a tracker is
  given), the resolver returns the output channel of the last one, in registration
  order, that provides one; when none does, the fresh collecting channel.
\<close>

theorem resolver_selects_last_provider:
  "p_get_output_channel (Some channels) request tracker =
     (let requested =
            (case tracker of
               Some t \<Rightarrow> (if output_channel_arg request = Some ''latest''
                          then get_latest_input_channel t else output_channel_arg request)
             | None \<Rightarrow> output_channel_arg request);
          providers = filter (\<lambda>channel. Some (name channel) = requested
                                \<and> get_output_channel channel \<noteq> None) channels
      in Inr (if providers = [] then CollectingOutputChannel
              else FromInput (the (get_output_channel (last providers)))))"
  by (simp add: p_get_output_channel_def foldl_output_channel Let_def
      USE_LATEST_INPUT_CHANNEL_AS_OUTPUT_CHANNEL_def split: option.splits)

text \<open>
  C4 as stated fails: with two registered channels of the requested name that both
  provide an output channel, the resolver returns the second one's, not the first one's.
\<close>

theorem resolver_first_provider_counterexample:
  "p_get_output_channel
     (Some [\<lparr>name = ''telegram'', get_output_channel = Some ''first''\<rparr>,
            \<lparr>name = ''telegram'', get_output_channel = Some ''second''\<rparr>])
     (example_request\<lparr>output_channel_arg := Some ''telegram''\<rparr>) (None :: unit tracker option)
   = Inr (FromInput ''second'')"
  by (simp add: p_get_output_channel_def example_request_def)

section \<open>The sweeps\<close>

text \<open>
  C1, as amended. In both sweeps a failure at one key is not isolated: when the loop has
  passed the keys \<open>pre\<close> and the body fails at the key \<open>k\<close>, the handler returns that
  failure in the state the failing body left, whatever keys \<open>post\<close> remain, and no
  collection of outcomes.

  In \<open>handle_message_w_condition\<close> the failure is an \<open>ErrorResponse\<close>: 400 \<open>ValueError\<close>
  with the exception object as message for a \<open>ValueError\<close> (a key that is not UTF-8
  included), 500 \<open>ActionException\<close> otherwise. The body fails exactly when the key is a
  \<open>str\<close>, or does not decode, or has no match, or the tracker lookup raises, or, the
  predicate holding, the resolution of the output channel or the message dispatch raises.

  In \<open>trigger_resume_inactive_conv\<close> the body fails exactly when the tracker lookup, the
  state, the dialogue, the new tracker or its reconstruction raises, or the timestamp is
  missing or out of range, all of which leave the handler uncaught; or when, the
  predicate holding, the resolution of the output channel or the action raises, which
  the handler raises again as an \<open>ErrorResponse\<close>, 400 for a \<open>ValueError\<close> and 500
  otherwise.
\<close>

theorem sweep_failure_aborts_request:
  "(tracker_store_keys app w = Some (pre @ k # post) \<longrightarrow>
    handle_message_ids app request m sn sv fu pre [] w = (Inr r1, w1) \<longrightarrow>
    handle_message_id app request m sn sv fu k r1 w1 = (Inl e, w2) \<longrightarrow>
      handle_message_w_condition K app request m sn sv fu w =
        (Inl (if e = UnicodeDecodeError \<or> (\<exists>msg. e = ValueError msg)
                   then ErrorResponse K 400 ''ValueError'' (PyException e) None None
                   else ErrorResponse K 500 ''ActionException''
                          (PyStr (''Server failure. Error: '' @ str_of_exception K e))
                          None None),
         w2))
   \<and> (handle_message_id app request m sn sv fu k r1 w1 = (Inl e, w2) \<longleftrightarrow>
      (case k of
         Str s \<Rightarrow> e = AttributeError \<and> w2 = w1
       | Bytes b \<Rightarrow>
      (case decode_utf8 b of
         None \<Rightarrow> e = UnicodeDecodeError \<and> w2 = w1
       | Some decoded \<Rightarrow>
      (case findall_plus_digits decoded of
         [] \<Rightarrow> e = IndexError \<and> w2 = w1
       | sender_id_str # rest \<Rightarrow>
      (case get_or_create_tracker app (Str sender_id_str) w1 of
         (Inl e1, w') \<Rightarrow> e = e1 \<and> w2 = w'
       | (Inr tracker, w') \<Rightarrow>
           (fu \<or> get_slot tracker sn = sv)
           \<and> (case p_get_output_channel (input_channels app) request (Some tracker) of
                 Inl e2 \<Rightarrow> e = e2 \<and> w2 = w'
               | Inr output_channel \<Rightarrow>
                   handle_text app m output_channel (Str sender_id_str) w' = (Inl e, w2)))))))
   \<and> (tracker_store_keys app w = Some (pre @ k # post) \<longrightarrow>
    resume_ids K app request a p c fu v now pre [] w = (Inr r1', w1') \<longrightarrow>
    resume_id K app request a p c fu v now k r1' w1' = (Inl fl, w2') \<longrightarrow>
      trigger_resume_inactive_conv K app request a p c fu v now w = (Inl fl, w2'))
   \<and> (resume_id K app request a p c fu v now k r1' w1' = (Inl fl, w2') \<longleftrightarrow>
      (case get_or_create_tracker app k w1' of
         (Inl e', w') \<Rightarrow> fl = Uncaught e' \<and> w2' = w'
       | (Inr tracker, w') \<Rightarrow>
      (case current_state tracker v of
         Inl e' \<Rightarrow> fl = Uncaught e' \<and> w2' = w'
       | Inr latest \<Rightarrow>
      (case as_dialogue tracker of
         Inl e' \<Rightarrow> fl = Uncaught e' \<and> w2' = w'
       | Inr dialogue \<Rightarrow>
      (case init_tracker app k of
         Inl e' \<Rightarrow> fl = Uncaught e' \<and> w2' = w'
       | Inr fresh_tracker \<Rightarrow>
      (case recreate_from_dialogue app fresh_tracker dialogue of
         Inl e' \<Rightarrow> fl = Uncaught e' \<and> w2' = w'
       | Inr new_tracker \<Rightarrow>
      (case latest of
         None \<Rightarrow> fl = Uncaught TypeError \<and> w2' = w'
       | Some timestamp \<Rightarrow>
      (case utcfromtimestamp K timestamp of
         Inl e' \<Rightarrow> fl = Uncaught e' \<and> w2' = w'
       | Inr last_event \<Rightarrow>
           (fu \<or> compare_utcdatetime_with_timegap now last_event 86400)
           \<and> (case p_get_output_channel (input_channels app) request (Some new_tracker) of
                 Inl e' \<Rightarrow>
                   fl = Raised
                          (if e' = UnicodeDecodeError \<or> (\<exists>msg. e' = ValueError msg)
                   then ErrorResponse K 400 ''ValueError'' (PyException e') None None
                   else ErrorResponse K 500 ''ValueError''
                          (PyStr (''Server failure. Error: '' @ str_of_exception K e'))
                          None None)
                   \<and> w2' = w'
               | Inr output_channel \<Rightarrow>
                   (\<exists>e'. execute_action app k a output_channel p c w' = (Inl e', w2')
                      \<and> fl = Raised
                          (if e' = UnicodeDecodeError \<or> (\<exists>msg. e' = ValueError msg)
                   then ErrorResponse K 400 ''ValueError'' (PyException e') None None
                   else ErrorResponse K 500 ''ValueError''
                          (PyStr (''Server failure. Error: '' @ str_of_exception K e'))
                          None None)))))))))))"
proof (intro conjI impI)
  assume "tracker_store_keys app w = Some (pre @ k # post)"
    and "handle_message_ids app request m sn sv fu pre [] w = (Inr r1, w1)"
    and "handle_message_id app request m sn sv fu k r1 w1 = (Inl e, w2)"
  then have "handle_message_w_condition K app request m sn sv fu w = (Inl (message_error K e), w2)"
    by (simp add: handle_message_w_condition_def retrieve_keys_Some handle_message_ids_append)
  then show "handle_message_w_condition K app request m sn sv fu w =
        (Inl (if e = UnicodeDecodeError \<or> (\<exists>msg. e = ValueError msg)
                   then ErrorResponse K 400 ''ValueError'' (PyException e) None None
                   else ErrorResponse K 500 ''ActionException''
                          (PyStr (''Server failure. Error: '' @ str_of_exception K e))
                          None None),
         w2)"
    by (simp only: message_error_explicit)
next
  show "handle_message_id app request m sn sv fu k r1 w1 = (Inl e, w2) \<longleftrightarrow>
      (case k of
         Str s \<Rightarrow> e = AttributeError \<and> w2 = w1
       | Bytes b \<Rightarrow>
      (case decode_utf8 b of
         None \<Rightarrow> e = UnicodeDecodeError \<and> w2 = w1
       | Some decoded \<Rightarrow>
      (case findall_plus_digits decoded of
         [] \<Rightarrow> e = IndexError \<and> w2 = w1
       | sender_id_str # rest \<Rightarrow>
      (case get_or_create_tracker app (Str sender_id_str) w1 of
         (Inl e1, w') \<Rightarrow> e = e1 \<and> w2 = w'
       | (Inr tracker, w') \<Rightarrow>
           (fu \<or> get_slot tracker sn = sv)
           \<and> (case p_get_output_channel (input_channels app) request (Some tracker) of
                 Inl e2 \<Rightarrow> e = e2 \<and> w2 = w'
               | Inr output_channel \<Rightarrow>
                   handle_text app m output_channel (Str sender_id_str) w' = (Inl e, w2))))))"
    by (rule handle_message_id_fails_iff)
next
  assume "tracker_store_keys app w = Some (pre @ k # post)"
    and "resume_ids K app request a p c fu v now pre [] w = (Inr r1', w1')"
    and "resume_id K app request a p c fu v now k r1' w1' = (Inl fl, w2')"
  then show "trigger_resume_inactive_conv K app request a p c fu v now w = (Inl fl, w2')"
    by (simp add: trigger_resume_inactive_conv_def retrieve_keys_Some resume_ids_append)
next
  show "resume_id K app request a p c fu v now k r1' w1' = (Inl fl, w2') \<longleftrightarrow>
      (case get_or_create_tracker app k w1' of
         (Inl e', w') \<Rightarrow> fl = Uncaught e' \<and> w2' = w'
       | (Inr tracker, w') \<Rightarrow>
      (case current_state tracker v of
         Inl e' \<Rightarrow> fl = Uncaught e' \<and> w2' = w'
       | Inr latest \<Rightarrow>
      (case as_dialogue tracker of
         Inl e' \<Rightarrow> fl = Uncaught e' \<and> w2' = w'
       | Inr dialogue \<Rightarrow>
      (case init_tracker app k of
         Inl e' \<Rightarrow> fl = Uncaught e' \<and> w2' = w'
       | Inr fresh_tracker \<Rightarrow>
      (case recreate_from_dialogue app fresh_tracker dialogue of
         Inl e' \<Rightarrow> fl = Uncaught e' \<and> w2' = w'
       | Inr new_tracker \<Rightarrow>
      (case latest of
         None \<Rightarrow> fl = Uncaught TypeError \<and> w2' = w'
       | Some timestamp \<Rightarrow>
      (case utcfromtimestamp K timestamp of
         Inl e' \<Rightarrow> fl = Uncaught e' \<and> w2' = w'
       | Inr last_event \<Rightarrow>
           (fu \<or> compare_utcdatetime_with_timegap now last_event 86400)
           \<and> (case p_get_output_channel (input_channels app) request (Some new_tracker) of
                 Inl e' \<Rightarrow>
                   fl = Raised
                          (if e' = UnicodeDecodeError \<or> (\<exists>msg. e' = ValueError msg)
                   then ErrorResponse K 400 ''ValueError'' (PyException e') None None
                   else ErrorResponse K 500 ''ValueError''
                          (PyStr (''Server failure. Error: '' @ str_of_exception K e'))
                          None None)
                   \<and> w2' = w'
               | Inr output_channel \<Rightarrow>
                   (\<exists>e'. execute_action app k a output_channel p c w' = (Inl e', w2')
                      \<and> fl = Raised
                          (if e' = UnicodeDecodeError \<or> (\<exists>msg. e' = ValueError msg)
                   then ErrorResponse K 400 ''ValueError'' (PyException e') None None
                   else ErrorResponse K 500 ''ValueError''
                          (PyStr (''Server failure. Error: '' @ str_of_exception K e'))
                          None None))))))))))"
    by (rule resume_id_fails_iff [unfolded resume_error_explicit])
qed

theorem sweep_failure_aborts_request_witness:
  "handle_message_w_condition example_constants
       (example_app [Bytes ''+1'', Bytes ''+2'', Bytes ''+3'']) example_request
       (Some ''hello'') ''subscribed'' (Some ''yes'') False []
     = (Inl (ErrorResponse example_constants 500 ''ActionException''
               (PyStr ''Server failure. Error: boom'') None None),
        [Str [43, 49]])
   \<and> handle_message_w_condition example_constants
       (example_app [Bytes ''+1'', Bytes ''+6'', Bytes ''+3'']) example_request
       (Some ''hello'') ''subscribed'' (Some ''yes'') False []
     = (Inl (ErrorResponse example_constants 400 ''ValueError''
               (PyException (ValueError ''bad value'')) None None),
        [Str [43, 49]])
   \<and> trigger_resume_inactive_conv example_constants
       (example_app [Bytes ''+1'', Bytes ''+2'', Bytes ''+3'']) example_request
       (Some ''utter_resume'') None None False AFTER_RESTART example_now []
     = (Inl (Raised (ErrorResponse example_constants 500 ''ValueError''
                       (PyStr ''Server failure. Error: boom'') None None)),
        [Bytes ''+1''])
   \<and> trigger_resume_inactive_conv example_constants
       (example_app [Bytes ''+1'', Bytes ''+5'', Bytes ''+3'']) example_request
       (Some ''utter_resume'') None None False AFTER_RESTART example_now []
     = (Inl (Uncaught (Exception ''store down'')), [Bytes ''+1''])"
proof -
  let ?app2 = "example_app [Bytes ''+1'', Bytes ''+2'', Bytes ''+3'']"
  let ?app6 = "example_app [Bytes ''+1'', Bytes ''+6'', Bytes ''+3'']"
  let ?app5 = "example_app [Bytes ''+1'', Bytes ''+5'', Bytes ''+3'']"
  have keys2: "tracker_store_keys ?app2 [] = Some ([Bytes ''+1''] @ Bytes ''+2'' # [Bytes ''+3''])"
    and keys6: "tracker_store_keys ?app6 [] = Some ([Bytes ''+1''] @ Bytes ''+6'' # [Bytes ''+3''])"
    and keys5: "tracker_store_keys ?app5 [] = Some ([Bytes ''+1''] @ Bytes ''+5'' # [Bytes ''+3''])"
    by (simp_all add: example_app_def)
  have pre: "handle_message_ids (example_app keys) example_request (Some ''hello'') ''subscribed''
               (Some ''yes'') False [Bytes ''+1''] [] []
             = (Inr [(Bytes ''+1'', Message_handle (Some ''hello'') [43, 49])], [Str [43, 49]])"
    for keys
    by (simp add: example_defs)
  have step2: "handle_message_id ?app2 example_request (Some ''hello'') ''subscribed''
               (Some ''yes'') False (Bytes ''+2'')
               [(Bytes ''+1'', Message_handle (Some ''hello'') [43, 49])] [Str [43, 49]]
             = (Inl (Exception ''boom''), [Str [43, 49]])"
    by (simp add: example_defs)
  have step6: "handle_message_id ?app6 example_request (Some ''hello'') ''subscribed''
               (Some ''yes'') False (Bytes ''+6'')
               [(Bytes ''+1'', Message_handle (Some ''hello'') [43, 49])] [Str [43, 49]]
             = (Inl (ValueError ''bad value''), [Str [43, 49]])"
    by (simp add: example_defs)
  have pre': "resume_ids example_constants (example_app keys) example_request
               (Some ''utter_resume'') None None False AFTER_RESTART example_now
               [Bytes ''+1''] [] []
             = (Inr [(Bytes ''+1'', Action_trigger_sent)], [Bytes ''+1''])"
    for keys
    by (simp add: example_defs)
  have step2': "resume_id example_constants ?app2 example_request (Some ''utter_resume'')
               None None False AFTER_RESTART example_now (Bytes ''+2'')
               [(Bytes ''+1'', Action_trigger_sent)] [Bytes ''+1'']
             = (Inl (Raised (ErrorResponse example_constants 500 ''ValueError''
                               (PyStr ''Server failure. Error: boom'') None None)),
                [Bytes ''+1''])"
    by (simp add: example_defs)
  have step5': "resume_id example_constants ?app5 example_request (Some ''utter_resume'')
               None None False AFTER_RESTART example_now (Bytes ''+5'')
               [(Bytes ''+1'', Action_trigger_sent)] [Bytes ''+1'']
             = (Inl (Uncaught (Exception ''store down'')), [Bytes ''+1''])"
    by (simp add: example_defs)
  note main = sweep_failure_aborts_request [where K = example_constants]
  from main [THEN conjunct1, rule_format, OF keys2 pre step2]
    main [THEN conjunct1, rule_format, OF keys6 pre step6]
    main [THEN conjunct2, THEN conjunct2, THEN conjunct1, rule_format, OF keys2 pre' step2']
    main [THEN conjunct2, THEN conjunct2, THEN conjunct1, rule_format, OF keys5 pre' step5']
  show ?thesis
    by (simp add: example_texts)
qed

text \<open>
  C1 as stated fails: over the keys \<open>+1\<close>, \<open>+2\<close>, \<open>+3\<close>, where the agent fails on \<open>+2\<close>, both
  sweeps end with a 500 \<open>ErrorResponse\<close> and have acted on \<open>+1\<close> only.
\<close>

theorem sweep_failure_isolation_counterexample:
  "handle_message_w_condition example_constants
       (example_app [Bytes ''+1'', Bytes ''+2'', Bytes ''+3'']) example_request
       (Some ''hello'') ''subscribed'' (Some ''yes'') False []
     = (Inl (ErrorResponse example_constants 500 ''ActionException''
               (PyStr ''Server failure. Error: boom'') None None),
        [Str [43, 49]])
   \<and> trigger_resume_inactive_conv example_constants
       (example_app [Bytes ''+1'', Bytes ''+2'', Bytes ''+3'']) example_request
       (Some ''utter_resume'') None None False AFTER_RESTART example_now []
     = (Inl (Raised (ErrorResponse example_constants 500 ''ValueError''
                       (PyStr ''Server failure. Error: boom'') None None)),
        [Bytes ''+1''])"
  by (simp add: example_defs)

text \<open>
  C7, as amended. The returned collection has an entry only for keys on which the action
  was triggered. A key that occurs once among the enumerated keys and whose predicate
  fails when its turn comes (force-update unset) has no entry in the collection, which
  therefore has fewer entries than there are keys.
\<close>

theorem sweep_omits_skipped_keys:
  "(tracker_store_keys app w = Some (pre @ Bytes b # post) \<longrightarrow>
    Bytes b \<notin> set pre \<longrightarrow> Bytes b \<notin> set post \<longrightarrow>
    handle_message_ids app request m sn sv False pre [] w = (Inr r1, w1) \<longrightarrow>
    decode_utf8 b = Some decoded \<longrightarrow> findall_plus_digits decoded = s # rest \<longrightarrow>
    get_or_create_tracker app (Str s) w1 = (Inr t, w2) \<longrightarrow> get_slot t sn \<noteq> sv \<longrightarrow>
    handle_message_w_condition K app request m sn sv False w = (Inr responses, w') \<longrightarrow>
      Bytes b \<notin> fst ` set responses
      \<and> length responses < length (pre @ Bytes b # post))
   \<and> (tracker_store_keys app w = Some (pre @ k # post) \<longrightarrow>
      k \<notin> set pre \<longrightarrow> k \<notin> set post \<longrightarrow>
      resume_ids K app request a p c False v now pre [] w = (Inr r1', w1') \<longrightarrow>
      get_or_create_tracker app k w1' = (Inr t', w2') \<longrightarrow>
      current_state t' v = Inr (Some timestamp) \<longrightarrow>
      utcfromtimestamp K timestamp = Inr last_ts \<longrightarrow>
      \<not> compare_utcdatetime_with_timegap now last_ts 86400 \<longrightarrow>
      trigger_resume_inactive_conv K app request a p c False v now w = (Inr responses', w'') \<longrightarrow>
        k \<notin> fst ` set responses'
        \<and> length responses' < length (pre @ k # post))"
proof (intro conjI impI)
  assume keys: "tracker_store_keys app w = Some (pre @ Bytes b # post)"
    and k: "Bytes b \<notin> set pre" "Bytes b \<notin> set post"
    and run_pre: "handle_message_ids app request m sn sv False pre [] w = (Inr r1, w1)"
    and skip: "decode_utf8 b = Some decoded" "findall_plus_digits decoded = s # rest"
      "get_or_create_tracker app (Str s) w1 = (Inr t, w2)" "get_slot t sn \<noteq> sv"
    and ok: "handle_message_w_condition K app request m sn sv False w = (Inr responses, w')"
  have step: "handle_message_id app request m sn sv False (Bytes b) r1 w1 = (Inr r1, w2)"
    using skip by (simp add: handle_message_id_def)
  have run_post: "handle_message_ids app request m sn sv False post r1 w2 = (Inr responses, w')"
    using ok keys run_pre step
    by (simp add: handle_message_w_condition_def retrieve_keys_Some handle_message_ids_append
        split: prod.splits sum.splits)
  from handle_message_ids_keys [OF run_pre]
  have "fst ` set r1 \<subseteq> set pre" and "distinct (map fst r1)" by simp_all
  with handle_message_ids_keys [OF run_post]
  have "fst ` set responses \<subseteq> set pre \<union> set post" and "distinct (map fst responses)"
    by blast+
  then show "Bytes b \<notin> fst ` set responses"
    and "length responses < length (pre @ Bytes b # post)"
    using omitted_key_bound [of responses pre post "Bytes b"] k by blast+
next
  assume keys: "tracker_store_keys app w = Some (pre @ k # post)"
    and k: "k \<notin> set pre" "k \<notin> set post"
    and run_pre: "resume_ids K app request a p c False v now pre [] w = (Inr r1', w1')"
    and skip: "get_or_create_tracker app k w1' = (Inr t', w2')"
      "current_state t' v = Inr (Some timestamp)"
      "utcfromtimestamp K timestamp = Inr last_ts"
      "\<not> compare_utcdatetime_with_timegap now last_ts 86400"
    and ok: "trigger_resume_inactive_conv K app request a p c False v now w = (Inr responses', w'')"
  from ok keys run_pre obtain r2 wx where
    step: "resume_id K app request a p c False v now k r1' w1' = (Inr r2, wx)" and
    rest: "resume_ids K app request a p c False v now post r2 wx = (Inr responses', w'')"
    by (auto simp: trigger_resume_inactive_conv_def retrieve_keys_Some resume_ids_append
        split: prod.splits sum.splits)
  from step skip have "r2 = r1' \<and> wx = w2'"
    by (auto simp: resume_id_def split: sum.splits)
  with rest
  have run_post: "resume_ids K app request a p c False v now post r1' w2' = (Inr responses', w'')"
    by simp
  from resume_ids_keys [OF run_pre]
  have "fst ` set r1' \<subseteq> set pre" and "distinct (map fst r1')" by simp_all
  with resume_ids_keys [OF run_post]
  have "fst ` set responses' \<subseteq> set pre \<union> set post" and "distinct (map fst responses')"
    by blast+
  then show "k \<notin> fst ` set responses'"
    and "length responses' < length (pre @ k # post)"
    using omitted_key_bound [of responses' pre post k] k by blast+
qed

theorem sweep_omits_skipped_keys_witness:
  "Bytes ''+4'' \<notin> fst ` set [(Bytes ''+1'', Message_handle (Some ''hello'') [43, 49]),
                               (Bytes ''+3'', Message_handle (Some ''hello'') [43, 51])]
   \<and> length [(Bytes ''+1'', Message_handle (Some ''hello'') [43, 49]),
             (Bytes ''+3'', Message_handle (Some ''hello'') [43, 51])]
       < length ([Bytes ''+1''] @ Bytes ''+4'' # [Bytes ''+3''])
   \<and> Bytes ''+4'' \<notin> fst ` set [(Bytes ''+1'', Action_trigger_sent), (Bytes ''+3'', Action_trigger_sent)]
   \<and> length [(Bytes ''+1'', Action_trigger_sent), (Bytes ''+3'', Action_trigger_sent)]
       < length ([Bytes ''+1''] @ Bytes ''+4'' # [Bytes ''+3''])"
proof -
  let ?app = "example_app [Bytes ''+1'', Bytes ''+4'', Bytes ''+3'']"
  have keys: "tracker_store_keys ?app [] = Some ([Bytes ''+1''] @ Bytes ''+4'' # [Bytes ''+3''])"
    by (simp add: example_app_def)
  have k: "Bytes ''+4'' \<notin> set [Bytes ''+1'']" "Bytes ''+4'' \<notin> set [Bytes ''+3'']"
    by simp_all
  have pre: "handle_message_ids ?app example_request (Some ''hello'') ''subscribed''
               (Some ''yes'') False [Bytes ''+1''] [] []
             = (Inr [(Bytes ''+1'', Message_handle (Some ''hello'') [43, 49])], [Str [43, 49]])"
    by (simp add: example_defs)
  have dec: "decode_utf8 ''+4'' = Some [43, 52]"
    by (simp add: decode_utf8_def)
  have found: "findall_plus_digits [43, 52] = [43, 52] # []"
    by (simp add: is_digit_def)
  have look: "get_or_create_tracker ?app (Str [43, 52]) [Str [43, 49]]
              = (Inr (example_tracker (Str [43, 52])), [Str [43, 49]])"
    by (simp add: example_app_def)
  have slot: "get_slot (example_tracker (Str [43, 52])) ''subscribed'' \<noteq> Some ''yes''"
    by (simp add: example_tracker_def)
  have ok: "handle_message_w_condition example_constants ?app example_request
              (Some ''hello'') ''subscribed'' (Some ''yes'') False []
            = (Inr [(Bytes ''+1'', Message_handle (Some ''hello'') [43, 49]),
                    (Bytes ''+3'', Message_handle (Some ''hello'') [43, 51])],
               [Str [43, 49], Str [43, 51]])"
    by (simp add: example_defs)
  have pre': "resume_ids example_constants ?app example_request (Some ''utter_resume'') None None
               False AFTER_RESTART example_now [Bytes ''+1''] [] []
             = (Inr [(Bytes ''+1'', Action_trigger_sent)], [Bytes ''+1''])"
    by (simp add: example_defs)
  have look': "get_or_create_tracker ?app (Bytes ''+4'') [Bytes ''+1'']
              = (Inr (example_tracker (Bytes ''+4'')), [Bytes ''+1''])"
    by (simp add: example_app_def)
  have ts: "current_state (example_tracker (Bytes ''+4'')) AFTER_RESTART = Inr (Some 1699913601)"
    by (simp add: example_tracker_def example_timestamp_def)
  have conv: "utcfromtimestamp example_constants 1699913601 = Inr 1699913601000000"
    by (simp add: example_timestamps)
  have fresh: "\<not> compare_utcdatetime_with_timegap example_now 1699913601000000 86400"
    by (simp add: compare_utcdatetime_with_timegap_def total_seconds_def example_now_def)
  have ok': "trigger_resume_inactive_conv example_constants ?app example_request
               (Some ''utter_resume'') None None False AFTER_RESTART example_now []
             = (Inr [(Bytes ''+1'', Action_trigger_sent), (Bytes ''+3'', Action_trigger_sent)],
                [Bytes ''+1'', Bytes ''+3''])"
    by (simp add: example_defs)
  from sweep_omits_skipped_keys [THEN conjunct1, rule_format, OF keys k pre dec found look slot ok]
    sweep_omits_skipped_keys [THEN conjunct2, rule_format, OF keys k pre' look' ts conv fresh ok']
  show ?thesis by blast
qed

text \<open>
  C7 as stated fails: over the keys \<open>+1\<close>, \<open>+4\<close>, \<open>+3\<close>, where the predicate fails for
  \<open>+4\<close>, both sweeps return two entries for three keys, and none for \<open>+4\<close>.
\<close>

theorem sweep_one_entry_per_key_counterexample:
  "handle_message_w_condition example_constants
       (example_app [Bytes ''+1'', Bytes ''+4'', Bytes ''+3'']) example_request
       (Some ''hello'') ''subscribed'' (Some ''yes'') False []
     = (Inr [(Bytes ''+1'', Message_handle (Some ''hello'') [43, 49]),
             (Bytes ''+3'', Message_handle (Some ''hello'') [43, 51])],
        [Str [43, 49], Str [43, 51]])
   \<and> trigger_resume_inactive_conv example_constants
       (example_app [Bytes ''+1'', Bytes ''+4'', Bytes ''+3'']) example_request
       (Some ''utter_resume'') None None False AFTER_RESTART example_now []
     = (Inr [(Bytes ''+1'', Action_trigger_sent), (Bytes ''+3'', Action_trigger_sent)],
        [Bytes ''+1'', Bytes ''+3''])"
  by (simp add: example_defs)

text \<open>
  C8, as amended. \<open>compare_utcdatetime_with_timegap\<close> with a gap of 86400 holds exactly
  when the datetime of the last event is at least 86400 seconds (counted in
  microseconds) before the current time: it holds at exactly 86400 seconds and fails at
  86399. That datetime is the timestamp of the last event rounded to the nearest
  microsecond. For a conversation for which everything before the staleness test
  succeeds and the output channel resolves, and with force-update unset,
  \<open>trigger_resume_inactive_conv\<close> executes the action exactly in that case and goes on
  with the remaining keys, and otherwise goes on with the responses and the state as
  they are.
\<close>

theorem staleness_after_rounding:
  "(compare_utcdatetime_with_timegap now last_event 86400
      \<longleftrightarrow> 86400 * 1000000 \<le> now - last_event)
   \<and> compare_utcdatetime_with_timegap now (now - 86400 * 1000000) 86400
   \<and> \<not> compare_utcdatetime_with_timegap now (now - 86399 * 1000000) 86400
   \<and> (utcfromtimestamp K timestamp = Inr last_event \<longrightarrow>
        last_event = round_half_even (timestamp * 1000000)
        \<and> \<bar>of_int last_event - timestamp * 1000000\<bar> \<le> 1 / 2)
   \<and> (tracker_store_keys app w = Some (pre @ k # post) \<longrightarrow>
      resume_ids K app request a p c False v now pre [] w = (Inr r1, w1) \<longrightarrow>
      get_or_create_tracker app k w1 = (Inr tracker, w2) \<longrightarrow>
      current_state tracker v = Inr (Some timestamp) \<longrightarrow>
      as_dialogue tracker = Inr dialogue \<longrightarrow>
      init_tracker app k = Inr fresh_tracker \<longrightarrow>
      recreate_from_dialogue app fresh_tracker dialogue = Inr new_tracker \<longrightarrow>
      utcfromtimestamp K timestamp = Inr last_event \<longrightarrow>
      p_get_output_channel (input_channels app) request (Some new_tracker) = Inr output_channel \<longrightarrow>
        trigger_resume_inactive_conv K app request a p c False v now w =
          (if 86400 * 1000000 \<le> now - last_event
           then (case execute_action app k a output_channel p c w2 of
                   (Inl e, w3) \<Rightarrow> (Inl (Raised (resume_error K e)), w3)
                 | (Inr u, w3) \<Rightarrow>
                     resume_ids K app request a p c False v now post
                       (dict_set k Action_trigger_sent r1) w3)
           else resume_ids K app request a p c False v now post r1 w2))"
proof (intro conjI impI)
  show iff: "compare_utcdatetime_with_timegap now last_event 86400
      \<longleftrightarrow> 86400 * 1000000 \<le> now - last_event" for last_event
  proof -
    have "(of_int (now - last_event) / 1000000 \<ge> (86400 :: rat))
          \<longleftrightarrow> (of_int (86400 * 1000000) :: rat) \<le> of_int (now - last_event)"
      by (simp add: pos_le_divide_eq)
    also have "\<dots> \<longleftrightarrow> 86400 * 1000000 \<le> now - last_event"
      by (simp only: of_int_le_iff)
    finally show ?thesis
      by (simp add: compare_utcdatetime_with_timegap_def total_seconds_def)
  qed
  show "compare_utcdatetime_with_timegap now (now - 86400 * 1000000) 86400"
    by (simp add: iff)
  show "\<not> compare_utcdatetime_with_timegap now (now - 86399 * 1000000) 86400"
    by (simp add: iff)
  {
    assume "utcfromtimestamp K timestamp = Inr last_event"
    then show rounded: "last_event = round_half_even (timestamp * 1000000)"
      by (auto simp: utcfromtimestamp_def Let_def split: if_splits)
    show "\<bar>of_int last_event - timestamp * 1000000\<bar> \<le> 1 / 2"
      unfolding rounded by (rule round_half_even_near)
  }
  assume "tracker_store_keys app w = Some (pre @ k # post)"
    and "resume_ids K app request a p c False v now pre [] w = (Inr r1, w1)"
    and "get_or_create_tracker app k w1 = (Inr tracker, w2)"
    and "current_state tracker v = Inr (Some timestamp)"
    and "as_dialogue tracker = Inr dialogue"
    and "init_tracker app k = Inr fresh_tracker"
    and "recreate_from_dialogue app fresh_tracker dialogue = Inr new_tracker"
    and "utcfromtimestamp K timestamp = Inr last_event"
    and "p_get_output_channel (input_channels app) request (Some new_tracker) = Inr output_channel"
  then show "trigger_resume_inactive_conv K app request a p c False v now w =
          (if 86400 * 1000000 \<le> now - last_event
           then (case execute_action app k a output_channel p c w2 of
                   (Inl e, w3) \<Rightarrow> (Inl (Raised (resume_error K e)), w3)
                 | (Inr u, w3) \<Rightarrow>
                     resume_ids K app request a p c False v now post
                       (dict_set k Action_trigger_sent r1) w3)
           else resume_ids K app request a p c False v now post r1 w2)"
    by (simp add: trigger_resume_inactive_conv_def retrieve_keys_Some resume_ids_append
        resume_id_def iff split: prod.splits sum.splits)
qed

theorem staleness_after_rounding_witness:
  "trigger_resume_inactive_conv example_constants (example_app [Bytes ''+1'', Bytes ''+4''])
       example_request (Some ''utter_resume'') None None False AFTER_RESTART example_now []
     = (Inr [(Bytes ''+1'', Action_trigger_sent)], [Bytes ''+1''])
   \<and> round_half_even (7129954412134401 / 4194304 * 1000000) = 1699913600000000"
proof -
  let ?app = "example_app [Bytes ''+1'', Bytes ''+4'']"
  let ?t1 = "example_tracker (Bytes ''+1'')"
  let ?t4 = "example_tracker (Bytes ''+4'')"
  have keys1: "tracker_store_keys ?app [] = Some ([] @ Bytes ''+1'' # [Bytes ''+4''])"
    and keys4: "tracker_store_keys ?app [] = Some ([Bytes ''+1''] @ Bytes ''+4'' # [])"
    by (simp_all add: example_app_def)
  have pre1: "resume_ids example_constants ?app example_request (Some ''utter_resume'') None None
               False AFTER_RESTART example_now [] [] [] = (Inr [], [])"
    by simp
  have pre4: "resume_ids example_constants ?app example_request (Some ''utter_resume'') None None
               False AFTER_RESTART example_now [Bytes ''+1''] [] []
             = (Inr [(Bytes ''+1'', Action_trigger_sent)], [Bytes ''+1''])"
    by (simp add: example_defs)
  have look1: "get_or_create_tracker ?app (Bytes ''+1'') [] = (Inr ?t1, [])"
    and look4: "get_or_create_tracker ?app (Bytes ''+4'') [Bytes ''+1''] = (Inr ?t4, [Bytes ''+1''])"
    by (simp_all add: example_app_def)
  have state1: "current_state ?t1 AFTER_RESTART = Inr (Some 1699913600)"
    and state4: "current_state ?t4 AFTER_RESTART = Inr (Some 1699913601)"
    by (simp_all add: example_tracker_def example_timestamp_def)
  have dialogue: "as_dialogue (example_tracker ident) = Inr ()" for ident
    by (simp add: example_tracker_def)
  have init: "init_tracker ?app ident = Inr (example_tracker ident)" for ident
    by (simp add: example_app_def)
  have recreate: "recreate_from_dialogue ?app (example_tracker ident) () = Inr (example_tracker ident)"
    for ident
    by (simp add: example_app_def)
  have conv1: "utcfromtimestamp example_constants 1699913600 = Inr 1699913600000000"
    and conv4: "utcfromtimestamp example_constants 1699913601 = Inr 1699913601000000"
    and conv9: "utcfromtimestamp example_constants (7129954412134401 / 4194304)
                = Inr 1699913600000000"
    by (simp_all add: example_timestamps)
  have channel: "p_get_output_channel (input_channels ?app) example_request
                   (Some (example_tracker ident)) = Inr (FromInput ''telegram-out'')" for ident
    by (simp add: example_defs)
  note main = staleness_after_rounding
    [where K = example_constants and request = example_request and now = example_now
       and a = "Some ''utter_resume''" and p = None and c = None and v = AFTER_RESTART]
  note sweep = main [THEN conjunct2, THEN conjunct2, THEN conjunct2, THEN conjunct2, rule_format]
  from sweep [OF keys1 pre1 look1 state1 dialogue init recreate conv1 channel]
    sweep [OF keys4 pre4 look4 state4 dialogue init recreate conv4 channel]
    main [THEN conjunct2, THEN conjunct2, THEN conjunct2, THEN conjunct1, rule_format, OF conv9]
  show ?thesis
    by (simp add: example_defs)
qed

text \<open>
  C8 as stated fails: the conversation \<open>+9\<close> has a last event \<open>2^-22\<close> seconds less than
  86400 seconds before the current time, and the sweep executes the action on it, since
  the conversion rounds the timestamp to the microsecond.
\<close>

theorem staleness_less_than_a_day_counterexample:
  "trigger_resume_inactive_conv example_constants (example_app [Bytes ''+9'']) example_request
       (Some ''utter_resume'') None None False AFTER_RESTART example_now []
     = (Inr [(Bytes ''+9'', Action_trigger_sent)], [Bytes ''+9''])
   \<and> current_state (example_tracker (Bytes ''+9'')) AFTER_RESTART
       = Inr (Some (7129954412134401 / 4194304))
   \<and> total_seconds example_now - 7129954412134401 / 4194304 < 86400"
  by (simp add: example_defs)

lemma bad_key_fails:
  assumes "\<not> (\<exists>b decoded. key = Bytes b \<and> decode_utf8 b = Some decoded
              \<and> (\<exists>i. Suc i < length decoded \<and> decoded ! i = 43 \<and> is_digit (decoded ! Suc i)))"
  shows "\<exists>e. handle_message_id app request m sn sv fu key r w = (Inl e, w)"
proof (cases key)
  case (Str s)
  then show ?thesis by (simp add: handle_message_id_def)
next
  case (Bytes b)
  show ?thesis
  proof (cases "decode_utf8 b")
    case None
    with Bytes show ?thesis by (simp add: handle_message_id_def)
  next
    case (Some decoded)
    with assms Bytes have "findall_plus_digits decoded = []"
      using findall_empty_iff [of decoded] by blast
    with Bytes Some show ?thesis by (simp add: handle_message_id_def)
  qed
qed

text \<open>
  C9, as amended. \<open>handle_message_w_condition\<close> returns responses only if every key is a
  \<open>bytes\<close> object that decodes as UTF-8 to a text with a plus sign followed by a digit.
  When the loop reaches a key that decodes but has no such match, the request fails with
  the 500 \<open>ActionException\<close> made from the \<open>IndexError\<close>; a key that does not decode fails
  it with the 400 \<open>ValueError\<close>, a key that is a \<open>str\<close> with a 500 \<open>ActionException\<close>; and
  when an earlier key has failed, the request has failed with that key's error. For a
  key that has a match, the first element of \<open>findall\<close> is the leftmost match, a plus
  sign with the longest run of digits after it, and the tracker lookup and the message
  use it as the sender id.
\<close>

theorem sweep_requires_phone_number_keys:
  "(tracker_store_keys app w = Some ids \<longrightarrow>
    handle_message_w_condition K app request m sn sv fu w = (Inr responses, w') \<longrightarrow>
      (\<forall>key \<in> set ids. \<exists>b decoded. key = Bytes b \<and> decode_utf8 b = Some decoded
          \<and> (\<exists>i. Suc i < length decoded \<and> decoded ! i = 43 \<and> is_digit (decoded ! Suc i))))
   \<and> (tracker_store_keys app w = Some (pre @ k # post) \<longrightarrow>
      handle_message_ids app request m sn sv fu pre [] w = (Inr r1, w1) \<longrightarrow>
        (k = Bytes b \<longrightarrow> decode_utf8 b = Some decoded \<longrightarrow>
         \<not> (\<exists>i. Suc i < length decoded \<and> decoded ! i = 43 \<and> is_digit (decoded ! Suc i)) \<longrightarrow>
           handle_message_w_condition K app request m sn sv fu w =
             (Inl (ErrorResponse K 500 ''ActionException''
                     (PyStr (''Server failure. Error: '' @ str_of_exception K IndexError))
                     None None), w1))
        \<and> (k = Bytes b \<longrightarrow> decode_utf8 b = None \<longrightarrow>
           handle_message_w_condition K app request m sn sv fu w =
             (Inl (ErrorResponse K 400 ''ValueError'' (PyException UnicodeDecodeError)
                     None None), w1))
        \<and> (k = Str s \<longrightarrow>
           handle_message_w_condition K app request m sn sv fu w =
             (Inl (ErrorResponse K 500 ''ActionException''
                     (PyStr (''Server failure. Error: '' @ str_of_exception K AttributeError))
                     None None), w1)))
   \<and> (tracker_store_keys app w = Some (pre @ post) \<longrightarrow>
      handle_message_ids app request m sn sv fu pre [] w = (Inl e, w1) \<longrightarrow>
        handle_message_w_condition K app request m sn sv fu w =
          (Inl (if e = UnicodeDecodeError \<or> (\<exists>msg. e = ValueError msg)
                   then ErrorResponse K 400 ''ValueError'' (PyException e) None None
                   else ErrorResponse K 500 ''ActionException''
                          (PyStr (''Server failure. Error: '' @ str_of_exception K e))
                          None None),
           w1))
   \<and> (decode_utf8 b' = Some decoded' \<longrightarrow>
      findall_plus_digits decoded' = s' # rest \<longrightarrow>
        (\<exists>xs ds ys. decoded' = xs @ s' @ ys
           \<and> \<not> (\<exists>i. Suc i < length xs \<and> xs ! i = 43 \<and> is_digit (xs ! Suc i))
           \<and> s' = 43 # ds \<and> ds \<noteq> [] \<and> list_all is_digit ds
           \<and> (ys = [] \<or> \<not> is_digit (hd ys)))
        \<and> handle_message_id app request m sn sv fu (Bytes b') r w0 =
            (case get_or_create_tracker app (Str s') w0 of
               (Inl e, w1) \<Rightarrow> (Inl e, w1)
             | (Inr tracker, w1) \<Rightarrow>
                 (if fu \<or> get_slot tracker sn = sv then
                    (case p_get_output_channel (input_channels app) request (Some tracker) of
                       Inl e \<Rightarrow> (Inl e, w1)
                     | Inr output_channel \<Rightarrow>
                         (case handle_text app m output_channel (Str s') w1 of
                            (Inl e, w2) \<Rightarrow> (Inl e, w2)
                          | (Inr u, w2) \<Rightarrow>
                              (Inr (dict_set (Bytes b') (Message_handle m s') r), w2)))
                  else (Inr r, w1))))"
proof (intro conjI impI ballI)
  fix key
  assume keys: "tracker_store_keys app w = Some ids"
    and ok: "handle_message_w_condition K app request m sn sv fu w = (Inr responses, w')"
    and key: "key \<in> set ids"
  show "\<exists>b decoded. key = Bytes b \<and> decode_utf8 b = Some decoded
          \<and> (\<exists>i. Suc i < length decoded \<and> decoded ! i = 43 \<and> is_digit (decoded ! Suc i))"
  proof (rule ccontr)
    assume bad: "\<not> ?thesis"
    from key obtain ys zs where ids: "ids = ys @ key # zs"
      by (meson split_list)
    obtain res wy where run: "handle_message_ids app request m sn sv fu ys [] w = (res, wy)"
      by (cases "handle_message_ids app request m sn sv fu ys [] w")
    show False
    proof (cases res)
      case (Inl e)
      with run ok keys ids show False
        by (simp add: handle_message_w_condition_def retrieve_keys_Some handle_message_ids_append)
    next
      case (Inr r1)
      from bad_key_fails [OF bad, where app = app and request = request and m = m
          and sn = sn and sv = sv and fu = fu and r = r1 and w = wy]
      obtain e where
        "handle_message_id app request m sn sv fu key r1 wy = (Inl e, wy)"
        by blast
      with Inr run ok keys ids show False
        by (simp add: handle_message_w_condition_def retrieve_keys_Some handle_message_ids_append)
    qed
  qed
next
  assume "tracker_store_keys app w = Some (pre @ k # post)"
    and "handle_message_ids app request m sn sv fu pre [] w = (Inr r1, w1)"
    and "k = Bytes b" and "decode_utf8 b = Some decoded"
    and none: "\<not> (\<exists>i. Suc i < length decoded \<and> decoded ! i = 43 \<and> is_digit (decoded ! Suc i))"
  moreover from none have "findall_plus_digits decoded = []"
    using findall_empty_iff [of decoded] by blast
  ultimately show "handle_message_w_condition K app request m sn sv fu w =
             (Inl (ErrorResponse K 500 ''ActionException''
                     (PyStr (''Server failure. Error: '' @ str_of_exception K IndexError))
                     None None), w1)"
    by (simp add: handle_message_w_condition_def retrieve_keys_Some handle_message_ids_append
        handle_message_id_def message_error_def)
next
  assume "tracker_store_keys app w = Some (pre @ k # post)"
    and "handle_message_ids app request m sn sv fu pre [] w = (Inr r1, w1)"
    and "k = Bytes b" and "decode_utf8 b = None"
  then show "handle_message_w_condition K app request m sn sv fu w =
             (Inl (ErrorResponse K 400 ''ValueError'' (PyException UnicodeDecodeError)
                     None None), w1)"
    by (simp add: handle_message_w_condition_def retrieve_keys_Some handle_message_ids_append
        handle_message_id_def message_error_def)
next
  assume "tracker_store_keys app w = Some (pre @ k # post)"
    and "handle_message_ids app request m sn sv fu pre [] w = (Inr r1, w1)"
    and "k = Str s"
  then show "handle_message_w_condition K app request m sn sv fu w =
             (Inl (ErrorResponse K 500 ''ActionException''
                     (PyStr (''Server failure. Error: '' @ str_of_exception K AttributeError))
                     None None), w1)"
    by (simp add: handle_message_w_condition_def retrieve_keys_Some handle_message_ids_append
        handle_message_id_def message_error_def)
next
  assume "tracker_store_keys app w = Some (pre @ post)"
    and "handle_message_ids app request m sn sv fu pre [] w = (Inl e, w1)"
  then have "handle_message_w_condition K app request m sn sv fu w = (Inl (message_error K e), w1)"
    by (simp add: handle_message_w_condition_def retrieve_keys_Some handle_message_ids_append)
  then show "handle_message_w_condition K app request m sn sv fu w =
          (Inl (if e = UnicodeDecodeError \<or> (\<exists>msg. e = ValueError msg)
                   then ErrorResponse K 400 ''ValueError'' (PyException e) None None
                   else ErrorResponse K 500 ''ActionException''
                          (PyStr (''Server failure. Error: '' @ str_of_exception K e))
                          None None),
           w1)"
    by (simp only: message_error_explicit)
next
  assume dec: "decode_utf8 b' = Some decoded'"
    and found: "findall_plus_digits decoded' = s' # rest"
  from findall_first_match [OF found]
  show "\<exists>xs ds ys. decoded' = xs @ s' @ ys
           \<and> \<not> (\<exists>i. Suc i < length xs \<and> xs ! i = 43 \<and> is_digit (xs ! Suc i))
           \<and> s' = 43 # ds \<and> ds \<noteq> [] \<and> list_all is_digit ds
           \<and> (ys = [] \<or> \<not> is_digit (hd ys))"
    by (simp only: findall_empty_iff)
  show "handle_message_id app request m sn sv fu (Bytes b') r w0 =
            (case get_or_create_tracker app (Str s') w0 of
               (Inl e, w1) \<Rightarrow> (Inl e, w1)
             | (Inr tracker, w1) \<Rightarrow>
                 (if fu \<or> get_slot tracker sn = sv then
                    (case p_get_output_channel (input_channels app) request (Some tracker) of
                       Inl e \<Rightarrow> (Inl e, w1)
                     | Inr output_channel \<Rightarrow>
                         (case handle_text app m output_channel (Str s') w1 of
                            (Inl e, w2) \<Rightarrow> (Inl e, w2)
                          | (Inr u, w2) \<Rightarrow>
                              (Inr (dict_set (Bytes b') (Message_handle m s') r), w2)))
                  else (Inr r, w1)))"
    using dec found by (simp add: handle_message_id_def Let_def split: prod.splits sum.splits)
qed

theorem sweep_requires_phone_number_keys_witness:
  "handle_message_w_condition example_constants
       (example_app [Bytes ''+1'', Bytes ''bob'', Bytes ''+3'']) example_request
       (Some ''hello'') ''subscribed'' (Some ''yes'') False []
     = (Inl (ErrorResponse example_constants 500 ''ActionException''
               (PyStr ''Server failure. Error: list index out of range'') None None),
        [Str [43, 49]])
   \<and> handle_message_w_condition example_constants
       (example_app [Bytes ''+1'', Bytes [CHR 0xFF], Bytes ''+3'']) example_request
       (Some ''hello'') ''subscribed'' (Some ''yes'') False []
     = (Inl (ErrorResponse example_constants 400 ''ValueError''
               (PyException UnicodeDecodeError) None None),
        [Str [43, 49]])
   \<and> handle_message_w_condition example_constants
       (example_app [Bytes ''+1'', Str [43, 51]]) example_request
       (Some ''hello'') ''subscribed'' (Some ''yes'') False []
     = (Inl (ErrorResponse example_constants 500 ''ActionException''
               (PyStr ''Server failure. Error: no attribute decode'') None None),
        [Str [43, 49]])
   \<and> handle_message_w_condition example_constants
       (example_app [Bytes ''+2'', Bytes ''bob'']) example_request
       (Some ''hello'') ''subscribed'' (Some ''yes'') False []
     = (Inl (ErrorResponse example_constants 500 ''ActionException''
               (PyStr ''Server failure. Error: boom'') None None),
        [])
   \<and> handle_message_w_condition example_constants
       (example_app [Bytes ''+1'', Bytes [CHR 0xC3, CHR 0xA9, CHR ''+'', CHR ''3'']])
       example_request (Some ''hello'') ''subscribed'' (Some ''yes'') False []
     = (Inr [(Bytes ''+1'', Message_handle (Some ''hello'') [43, 49]),
             (Bytes [CHR 0xC3, CHR 0xA9, CHR ''+'', CHR ''3''],
              Message_handle (Some ''hello'') [43, 51])],
        [Str [43, 49], Str [43, 51]])
   \<and> handle_message_id (example_app []) example_request (Some ''hello'') ''subscribed''
       (Some ''yes'') False (Bytes ''ab+12c+3'') [] []
     = (Inr [(Bytes ''ab+12c+3'', Message_handle (Some ''hello'') [43, 49, 50])],
        [Str [43, 49, 50]])"
proof -
  let ?bob = "example_app [Bytes ''+1'', Bytes ''bob'', Bytes ''+3'']"
  let ?ff = "example_app [Bytes ''+1'', Bytes [CHR 0xFF], Bytes ''+3'']"
  let ?str = "example_app [Bytes ''+1'', Str [43, 51]]"
  let ?two = "example_app [Bytes ''+2'', Bytes ''bob'']"
  let ?good = "example_app [Bytes ''+1'', Bytes [CHR 0xC3, CHR 0xA9, CHR ''+'', CHR ''3'']]"
  have keys_bob: "tracker_store_keys ?bob [] = Some ([Bytes ''+1''] @ Bytes ''bob'' # [Bytes ''+3''])"
    and keys_ff: "tracker_store_keys ?ff [] = Some ([Bytes ''+1''] @ Bytes [CHR 0xFF] # [Bytes ''+3''])"
    and keys_str: "tracker_store_keys ?str [] = Some ([Bytes ''+1''] @ Str [43, 51] # [])"
    and keys_two: "tracker_store_keys ?two [] = Some ([Bytes ''+2''] @ [Bytes ''bob''])"
    and keys_good: "tracker_store_keys ?good []
                    = Some [Bytes ''+1'', Bytes [CHR 0xC3, CHR 0xA9, CHR ''+'', CHR ''3'']]"
    by (simp_all add: example_app_def)
  have pre: "handle_message_ids (example_app keys) example_request (Some ''hello'') ''subscribed''
               (Some ''yes'') False [Bytes ''+1''] [] []
             = (Inr [(Bytes ''+1'', Message_handle (Some ''hello'') [43, 49])], [Str [43, 49]])"
    for keys
    by (simp add: example_defs)
  have pre_two: "handle_message_ids ?two example_request (Some ''hello'') ''subscribed''
               (Some ''yes'') False [Bytes ''+2''] [] []
             = (Inl (Exception ''boom''), [])"
    by (simp add: example_defs)
  have dec_bob: "decode_utf8 ''bob'' = Some [98, 111, 98]"
    and dec_ff: "decode_utf8 [CHR 0xFF] = None"
    and dec_ab: "decode_utf8 ''ab+12c+3'' = Some [97, 98, 43, 49, 50, 99, 43, 51]"
    by (simp_all add: decode_utf8_def)
  have none: "\<not> (\<exists>i. Suc i < length [98, 111, 98 :: nat] \<and> [98, 111, 98] ! i = (43 :: nat)
                      \<and> is_digit ([98, 111, 98] ! Suc i))"
    using findall_empty_iff [of "[98, 111, 98]"] by simp
  have found: "findall_plus_digits [97, 98, 43, 49, 50, 99, 43, 51] = [43, 49, 50] # [[43, 51]]"
    by (simp add: is_digit_def)
  have good: "handle_message_w_condition example_constants ?good example_request
                (Some ''hello'') ''subscribed'' (Some ''yes'') False []
              = (Inr [(Bytes ''+1'', Message_handle (Some ''hello'') [43, 49]),
                      (Bytes [CHR 0xC3, CHR 0xA9, CHR ''+'', CHR ''3''],
                       Message_handle (Some ''hello'') [43, 51])],
                 [Str [43, 49], Str [43, 51]])"
    by (simp add: example_defs)
  note main = sweep_requires_phone_number_keys
    [where K = example_constants and request = example_request and m = "Some ''hello''"
       and sn = "''subscribed''" and sv = "Some ''yes''" and fu = False]
  note reach = main [THEN conjunct2, THEN conjunct1, rule_format]
  from reach [OF keys_bob pre, THEN conjunct1, rule_format, OF refl dec_bob none]
    reach [OF keys_ff pre, THEN conjunct2, THEN conjunct1, rule_format, OF refl dec_ff]
    reach [OF keys_str pre, THEN conjunct2, THEN conjunct2, rule_format, OF refl]
    main [THEN conjunct2, THEN conjunct2, THEN conjunct1, rule_format, OF keys_two pre_two]
    main [THEN conjunct1, rule_format, OF keys_good good]
    main [where app = "example_app []" and r = "[]" and ?w0.0 = "[]",
      THEN conjunct2, THEN conjunct2, THEN conjunct2, rule_format, OF dec_ab found,
      THEN conjunct2]
    good
  show ?thesis
    by (simp add: example_defs)
qed

text \<open>
  C9 as stated fails: of the key that is the single byte \<open>0xFF\<close> and the key \<open>b'bob'\<close> neither has a match, and the
  request fails with a 400 \<open>ValueError\<close>, not a 500 \<open>ActionException\<close>; and the \<open>str\<close> key
  \<open>'+1'\<close> has a match, and the request fails all the same.
\<close>

theorem phone_number_precondition_counterexample:
  "handle_message_w_condition example_constants
       (example_app [Bytes [CHR 0xFF], Bytes ''bob'']) example_request
       (Some ''hello'') ''subscribed'' (Some ''yes'') False []
     = (Inl (ErrorResponse example_constants 400 ''ValueError''
               (PyException UnicodeDecodeError) None None),
        [])
   \<and> handle_message_w_condition example_constants
       (example_app [Str [43, 49]]) example_request
       (Some ''hello'') ''subscribed'' (Some ''yes'') False []
     = (Inl (ErrorResponse example_constants 500 ''ActionException''
               (PyStr ''Server failure. Error: no attribute decode'') None None),
        [])"
  by (simp add: example_defs)

section \<open>The error envelope\<close>

text \<open>
  C10, as amended. Every \<open>ErrorResponse\<close> has an \<open>error_info\<close> with exactly the keys
  \<open>version\<close>, \<open>status\<close>, \<open>message\<close>, \<open>reason\<close>, \<open>details\<close>, \<open>help\<close> and \<open>code\<close>;
  \<open>status\<close> is the string \<open>failure\<close>, \<open>message\<close> is what the caller passed, \<open>details\<close> is
  the empty map when none is supplied, and \<open>code\<close> is the status of the exception. When
  \<open>error_info\<close> can be written as JSON, \<open>ignore_404s\<close> answers with it as body and with
  that status; a string message can be written, an exception object cannot, and then
  the handler raises \<open>TypeError\<close> and answers nothing.
\<close>

theorem error_response_shape:
  "map fst (error_info (ErrorResponse K st reason message details help_url)) =
     [''version'', ''status'', ''message'', ''reason'', ''details'', ''help'', ''code'']
   \<and> map_of (error_info (ErrorResponse K st reason message details help_url)) ''status''
       = Some (PyStr ''failure'')
   \<and> map_of (error_info (ErrorResponse K st reason message details help_url)) ''message''
       = Some message
   \<and> map_of (error_info (ErrorResponse K st reason message details help_url)) ''reason''
       = Some (PyStr reason)
   \<and> map_of (error_info (ErrorResponse K st reason message details help_url)) ''details''
       = Some (PyDict (case details of None \<Rightarrow> [] | Some d \<Rightarrow> d))
   \<and> map_of (error_info (ErrorResponse K st reason message details help_url)) ''code''
       = Some (PyInt st)
   \<and> status (ErrorResponse K st reason message details help_url) = st
   \<and> ignore_404s (ErrorResponse K st reason message details help_url) =
       (if serializable message
           \<and> serializable (PyDict (case details of None \<Rightarrow> [] | Some d \<Rightarrow> d))
        then Inr \<lparr> body = error_info (ErrorResponse K st reason message details help_url),
                   http_status = st \<rparr>
        else Inl TypeError)
   \<and> serializable (PyStr text)
   \<and> \<not> serializable (PyException e)"
  by (cases details; cases help_url)
    (auto simp add: ErrorResponse_def ignore_404s_def details_or_empty_def help_value_def)

theorem error_response_shape_witness:
  "ignore_404s (ErrorResponse example_constants 500 ''ActionException''
                  (PyStr ''Server failure. Error: boom'') None None)
     = Inr \<lparr> body = error_info (ErrorResponse example_constants 500 ''ActionException''
                                    (PyStr ''Server failure. Error: boom'') None None),
              http_status = 500 \<rparr>
   \<and> ignore_404s (ErrorResponse example_constants 400 ''ValueError''
                    (PyException (ValueError ''bad value'')) None None)
     = Inl TypeError"
  using error_response_shape [where K = example_constants and st = 500
      and reason = "''ActionException''" and message = "PyStr ''Server failure. Error: boom''"
      and details = None and help_url = None]
    error_response_shape [where K = example_constants and st = 400
      and reason = "''ValueError''" and message = "PyException (ValueError ''bad value'')"
      and details = None and help_url = None]
  by simp

text \<open>
  C10 as stated fails: not every failure is an \<open>ErrorResponse\<close>. The callback
  \<open>authenticate\<close> raises the \<open>AuthenticationFailed\<close> of the JWT library; and in
  \<open>trigger_resume_inactive_conv\<close> the tracker lookup stands outside the \<open>try\<close> block, so
  an exception of the tracker store leaves the handler as it is.
\<close>

theorem failure_not_error_response_counterexample:
  "authenticate example_request =
     Inl (Uncaught (AuthenticationFailed
       (''Direct JWT authentication not supported. You should already have ''
        @ ''a valid JWT from an authentication provider, Rasa will just make ''
        @ ''sure that the token is valid, but not issue new tokens.'')))
   \<and> trigger_resume_inactive_conv example_constants (example_app [Bytes ''+5'']) example_request
       (Some ''utter_resume'') None None False AFTER_RESTART example_now []
     = (Inl (Uncaught (Exception ''store down'')), [])"
  by (simp add: authenticate_def example_defs)

end
